theory Spec2Isabelle
  imports Complex_Main "HOL-Library.AList"
begin

section \<open>JavaScript values used by the data layer\<close>

text \<open>
  Strings are lists of 8-bit characters (the Latin-1 range of JavaScript's code units).
  Numbers are JavaScript numbers with the rounding to double precision left out: a finite
  number is an exact rational, and the three special values are kept apart.  Objects are
  dictionaries of their own properties in creation order (\<open>AList.update\<close> keeps the
  place of an existing key and appends a new one).  What an object inherits from
  \<open>Object.prototype\<close> is modelled where the parser tests a property of an object literal
  (\<open>getColumnsFromTable\<close>); the fixed dictionaries of the converter and of the store are
  read with the names they are made for.
\<close>

datatype number = NaN | Num rat | PosInfinity | NegInfinity

definition isNaN :: "number \<Rightarrow> bool" where
  "isNaN n = (n = NaN)"

text \<open>\<open>a === b\<close> on numbers: \<open>NaN\<close> differs from everything, itself included.\<close>

definition strict_eq :: "number \<Rightarrow> number \<Rightarrow> bool" where
  "strict_eq a b = (a \<noteq> NaN \<and> b \<noteq> NaN \<and> a = b)"

text \<open>\<open>a > b\<close> on numbers: false as soon as one side is \<open>NaN\<close>.\<close>

fun number_gt :: "number \<Rightarrow> number \<Rightarrow> bool" where
  "number_gt NaN _ = False"
| "number_gt _ NaN = False"
| "number_gt (Num a) (Num b) = (a > b)"
| "number_gt PosInfinity PosInfinity = False"
| "number_gt PosInfinity _ = True"
| "number_gt NegInfinity _ = False"
| "number_gt (Num a) NegInfinity = True"
| "number_gt (Num a) PosInfinity = False"

text \<open>\<open>a - b\<close> and \<open>a * b\<close> on numbers.\<close>

fun number_neg :: "number \<Rightarrow> number" where
  "number_neg NaN = NaN"
| "number_neg (Num a) = Num (- a)"
| "number_neg PosInfinity = NegInfinity"
| "number_neg NegInfinity = PosInfinity"

fun number_add :: "number \<Rightarrow> number \<Rightarrow> number" where
  "number_add NaN _ = NaN"
| "number_add _ NaN = NaN"
| "number_add (Num a) (Num b) = Num (a + b)"
| "number_add PosInfinity NegInfinity = NaN"
| "number_add NegInfinity PosInfinity = NaN"
| "number_add PosInfinity _ = PosInfinity"
| "number_add NegInfinity _ = NegInfinity"
| "number_add (Num a) PosInfinity = PosInfinity"
| "number_add (Num a) NegInfinity = NegInfinity"

definition number_sub :: "number \<Rightarrow> number \<Rightarrow> number" where
  "number_sub a b = number_add a (number_neg b)"

fun number_mul :: "number \<Rightarrow> number \<Rightarrow> number" where
  "number_mul NaN _ = NaN"
| "number_mul _ NaN = NaN"
| "number_mul (Num a) (Num b) = Num (a * b)"
| "number_mul (Num a) PosInfinity =
     (if a = 0 then NaN else if a > 0 then PosInfinity else NegInfinity)"
| "number_mul (Num a) NegInfinity =
     (if a = 0 then NaN else if a > 0 then NegInfinity else PosInfinity)"
| "number_mul PosInfinity b =
     (if b = Num 0 then NaN
      else if number_gt b (Num 0) then PosInfinity else NegInfinity)"
| "number_mul NegInfinity b =
     (if b = Num 0 then NaN
      else if number_gt b (Num 0) then NegInfinity else PosInfinity)"

text \<open>
  Modelled from the spec: \<open>U.isNumber\<close> of \<open>Core/Utilities.js\<close>, which is not among
  the sources, for an argument that is a number; the data layer uses it as the test "is
  a finite number, not \<open>NaN\<close>".
\<close>

definition isNumber :: "number \<Rightarrow> bool" where
  "isNumber n = (case n of Num _ \<Rightarrow> True | _ \<Rightarrow> False)"

text \<open>Truthiness of a number: \<open>NaN\<close> and zero are falsy.\<close>

definition number_truthy :: "number \<Rightarrow> bool" where
  "number_truthy n = (n \<noteq> NaN \<and> n \<noteq> Num 0)"

subsection \<open>Characters and arrays\<close>

definition is_digit :: "char \<Rightarrow> bool" where
  "is_digit c = (48 \<le> (of_char c :: int) \<and> (of_char c :: int) \<le> 57)"

definition digit_val :: "char \<Rightarrow> int" where
  "digit_val c = of_char c - 48"

text \<open>The class \<open>\s\<close>, which is also what \<open>trim\<close> strips: tab, line feed, vertical
  tab, form feed, carriage return, space and no-break space.\<close>

definition is_space :: "char \<Rightarrow> bool" where
  "is_space c = ((of_char c :: int) \<in> {9, 10, 11, 12, 13, 32, 160})"

text \<open>Line terminators, which the pattern \<open>.\<close> does not match.\<close>

definition is_line_terminator :: "char \<Rightarrow> bool" where
  "is_line_terminator c = ((of_char c :: int) \<in> {10, 13})"

fun digits_val :: "int \<Rightarrow> string \<Rightarrow> int" where
  "digits_val acc [] = acc"
| "digits_val acc (c # cs) = digits_val (10 * acc + digit_val c) cs"

text \<open>Reading \<open>xs[i]\<close>: out of range gives the \<open>undefined\<close> of the element type.\<close>

definition js_nth :: "'a \<Rightarrow> 'a list \<Rightarrow> nat \<Rightarrow> 'a" where
  "js_nth undef xs i = (if i < length xs then xs ! i else undef)"

text \<open>Writing \<open>xs[i] = v\<close>: beyond the end the array grows, the gap reading as
  \<open>undefined\<close>.\<close>

definition js_set :: "'a \<Rightarrow> 'a list \<Rightarrow> nat \<Rightarrow> 'a \<Rightarrow> 'a list" where
  "js_set undef xs i v =
     (if i < length xs then xs[i := v]
      else xs @ replicate (i - length xs) undef @ [v])"

subsection \<open>Regular expressions\<close>

text \<open>
  The patterns of the sources are written in this datatype and run by a backtracking
  matcher with JavaScript's priorities: alternatives left to right, quantifiers greedy.
  A matcher state is the position, the rest of the input from there, and the captures.
\<close>

datatype regex =
    Eps
  | Chr char
  | OneOf "char list"
  | Digit
  | Space
  | Dot
  | Bol
  | Eol
  | Cat regex regex
  | Alt regex regex
  | Rep nat "nat option" regex
  | Group regex

type_synonym mstate = "nat \<times> string \<times> string list"

fun Seq :: "regex list \<Rightarrow> regex" where
  "Seq [] = Eps"
| "Seq [r] = r"
| "Seq (r # rs) = Cat r (Seq rs)"

definition Lit :: "string \<Rightarrow> regex" where
  "Lit s = Seq (map Chr s)"

definition Star :: "regex \<Rightarrow> regex" where
  "Star r = Rep 0 None r"

definition Plus :: "regex \<Rightarrow> regex" where
  "Plus r = Rep 1 None r"

definition Opt :: "regex \<Rightarrow> regex" where
  "Opt r = Rep 0 (Some 1) r"

definition one_char :: "(char \<Rightarrow> bool) \<Rightarrow> mstate \<Rightarrow> mstate list" where
  "one_char P st =
     (case st of (i, rest, caps) \<Rightarrow>
        (case rest of
           [] \<Rightarrow> []
         | c # cs \<Rightarrow> if P c then [(Suc i, cs, caps)] else []))"

text \<open>
  A greedy quantifier \<open>{lo,hi}\<close>: one more round of the body first, the way out second.
  Once the mandatory rounds are done, a round that consumes nothing is refused, as in
  JavaScript; so the first argument, the number of rounds still allowed, is never the
  reason to stop when it starts at \<open>lo\<close> plus the length of the input.
\<close>

fun rep_greedy ::
  "(mstate \<Rightarrow> mstate list) \<Rightarrow> nat \<Rightarrow> nat \<Rightarrow> nat option \<Rightarrow> mstate \<Rightarrow> mstate list" where
  "rep_greedy m 0 lo hi st = (if lo = 0 then [st] else [])"
| "rep_greedy m (Suc b) lo hi st =
     (if hi = Some 0 then [st]
      else concat (map (\<lambda>st'. if lo = 0 \<and> fst st' = fst st then []
                               else rep_greedy m b (lo - 1) (map_option (\<lambda>h. h - 1) hi) st')
                       (m st))
           @ (if lo = 0 then [st] else []))"

primrec rmatch :: "regex \<Rightarrow> nat \<Rightarrow> mstate \<Rightarrow> mstate list" where
  "rmatch Eps = (\<lambda>n st. [st])"
| "rmatch (Chr c) = (\<lambda>n st. one_char (\<lambda>d. d = c) st)"
| "rmatch (OneOf cs) = (\<lambda>n st. one_char (\<lambda>d. d \<in> set cs) st)"
| "rmatch Digit = (\<lambda>n st. one_char is_digit st)"
| "rmatch Space = (\<lambda>n st. one_char is_space st)"
| "rmatch Dot = (\<lambda>n st. one_char (\<lambda>d. \<not> is_line_terminator d) st)"
| "rmatch Bol = (\<lambda>n st. if fst st = 0 then [st] else [])"
| "rmatch Eol = (\<lambda>n st. if fst (snd st) = [] then [st] else [])"
| "rmatch (Cat a b) = (\<lambda>n st. concat (map (rmatch b n) (rmatch a n st)))"
| "rmatch (Alt a b) = (\<lambda>n st. rmatch a n st @ rmatch b n st)"
| "rmatch (Rep lo hi r) = (\<lambda>n st. rep_greedy (rmatch r n) (lo + n) lo hi st)"
| "rmatch (Group r) = (\<lambda>n st.
     (case st of (i, rest, caps) \<Rightarrow>
        map (\<lambda>st'. case st' of (j, rest', caps') \<Rightarrow>
               (j, rest', caps'[length caps := take (j - i) rest]))
            (rmatch r n (i, rest, caps @ [[]]))))"

text \<open>\<open>regex.exec\<close> from a start index on: the leftmost start that matches, with the
  first match in priority order there.  The result is start, end and captures.\<close>

fun first_match :: "regex \<Rightarrow> string \<Rightarrow> nat list \<Rightarrow> (nat \<times> nat \<times> string list) option" where
  "first_match r s [] = None"
| "first_match r s (i # is) =
     (case rmatch r (length s) (i, drop i s, []) of
        [] \<Rightarrow> first_match r s is
      | (j, _, caps) # _ \<Rightarrow> Some (i, j, caps))"

definition regex_exec_from :: "regex \<Rightarrow> string \<Rightarrow> nat \<Rightarrow> (nat \<times> nat \<times> string list) option" where
  "regex_exec_from r s start = first_match r s [start..<Suc (length s)]"

text \<open>\<open>str.match(regex)\<close> without the \<open>g\<close> flag: \<open>null\<close>, or the array of the whole
  match followed by the captures.\<close>

definition str_match :: "string \<Rightarrow> regex \<Rightarrow> string list option" where
  "str_match s r =
     (case regex_exec_from r s 0 of
        None \<Rightarrow> None
      | Some (i, j, caps) \<Rightarrow> Some (take (j - i) (drop i s) # caps))"

definition regex_test :: "regex \<Rightarrow> string \<Rightarrow> bool" where
  "regex_test r s = (regex_exec_from r s 0 \<noteq> None)"

text \<open>Replacement templates: literal text and \<open>$n\<close>.\<close>

datatype tpart = TLit string | TGroup nat

fun expand :: "tpart list \<Rightarrow> string list \<Rightarrow> string" where
  "expand [] caps = []"
| "expand (TLit s # ts) caps = s @ expand ts caps"
| "expand (TGroup k # ts) caps = js_nth [] caps (k - 1) @ expand ts caps"

text \<open>\<open>str.replace(regex, template)\<close>, first match only.\<close>

definition str_replace :: "string \<Rightarrow> regex \<Rightarrow> tpart list \<Rightarrow> string" where
  "str_replace s r tmpl =
     (case regex_exec_from r s 0 of
        None \<Rightarrow> s
      | Some (i, j, caps) \<Rightarrow> take i s @ expand tmpl caps @ drop j s)"

text \<open>\<open>str.replace(regex, template)\<close> with the \<open>g\<close> flag: every match, left to right;
  after an empty match the search moves one character on.  The first argument bounds the
  number of matches by the length of the input plus one.\<close>

fun replace_from :: "nat \<Rightarrow> string \<Rightarrow> regex \<Rightarrow> tpart list \<Rightarrow> nat \<Rightarrow> string" where
  "replace_from 0 s r tmpl p = drop p s"
| "replace_from (Suc b) s r tmpl p =
     (case regex_exec_from r s p of
        None \<Rightarrow> drop p s
      | Some (i, j, caps) \<Rightarrow>
          take (i - p) (drop p s) @ expand tmpl caps @
          (if j = i then take 1 (drop i s) @ replace_from b s r tmpl (Suc i)
           else replace_from b s r tmpl j))"

definition str_replace_all :: "string \<Rightarrow> regex \<Rightarrow> tpart list \<Rightarrow> string" where
  "str_replace_all s r tmpl = replace_from (Suc (length s)) s r tmpl 0"

text \<open>\<open>String.prototype.trim\<close>.\<close>

definition str_trim :: "string \<Rightarrow> string" where
  "str_trim s = rev (dropWhile is_space (rev (dropWhile is_space s)))"

text \<open>\<open>str.split(' ')\<close>: the pieces between single spaces, empty pieces included; the
  second argument is the piece being read.\<close>

fun split_space :: "string \<Rightarrow> string \<Rightarrow> string list" where
  "split_space [] cur = [cur]"
| "split_space (c # cs) cur =
     (if c = CHR '' '' then cur # split_space cs [] else split_space cs (cur @ [c]))"

text \<open>\<open>array.join(sep)\<close>.\<close>

fun join :: "string \<Rightarrow> string list \<Rightarrow> string" where
  "join sep [] = []"
| "join sep [x] = x"
| "join sep (x # xs) = x @ sep @ join sep xs"

subsection \<open>Reading numbers from strings\<close>

definition is_hex_digit :: "char \<Rightarrow> bool" where
  "is_hex_digit c = (is_digit c \<or> c \<in> set ''abcdefABCDEF'')"

definition hex_val :: "char \<Rightarrow> int" where
  "hex_val c =
     (if is_digit c then digit_val c
      else if c \<in> set ''abcdef'' then of_char c - 87
      else of_char c - 55)"

fun radix_val :: "int \<Rightarrow> int \<Rightarrow> string \<Rightarrow> int" where
  "radix_val b acc [] = acc"
| "radix_val b acc (c # cs) = radix_val b (b * acc + hex_val c) cs"

text \<open>An optional sign in front: the factor and the rest.\<close>

definition read_sign :: "string \<Rightarrow> rat \<times> string" where
  "read_sign s =
     (case s of
        c # cs \<Rightarrow> if c = CHR ''-'' then (- 1, cs) else if c = CHR ''+'' then (1, cs) else (1, s)
      | [] \<Rightarrow> (1, s))"

text \<open>The exponent part \<open>e\<close>, sign, digits at the head of a string, when there is one:
  the exponent and the rest.\<close>

definition read_exponent :: "string \<Rightarrow> (int \<times> string) option" where
  "read_exponent s =
     (case s of
        c # cs \<Rightarrow>
          if c = CHR ''e'' \<or> c = CHR ''E'' then
            (let (sg, r) = read_sign cs; ds = takeWhile is_digit r
             in if ds = [] then None
                else Some ((if sg < 0 then - 1 else 1) * digits_val 0 ds,
                           dropWhile is_digit r))
          else None
      | [] \<Rightarrow> None)"

definition pow10 :: "int \<Rightarrow> rat" where
  "pow10 e = (if 0 \<le> e then 10 ^ nat e else 1 / 10 ^ nat (- e))"

text \<open>The longest prefix that is a decimal literal (\<open>StrDecimalLiteral\<close>): its value and
  the rest of the string, or nothing when no prefix is one.\<close>

definition str_decimal_prefix :: "string \<Rightarrow> (number \<times> string) option" where
  "str_decimal_prefix s =
     (let (sg, r0) = read_sign s in
      if take 8 r0 = ''Infinity'' then
        Some (if sg < 0 then NegInfinity else PosInfinity, drop 8 r0)
      else
        (let ip = takeWhile is_digit r0;
             r1 = dropWhile is_digit r0;
             has_dot = (r1 \<noteq> [] \<and> hd r1 = CHR ''.'');
             fp = (if has_dot then takeWhile is_digit (tl r1) else []);
             r2 = (if has_dot then dropWhile is_digit (tl r1) else r1)
         in if ip = [] \<and> fp = [] then None
            else
              (let m = of_int (digits_val 0 ip) + of_int (digits_val 0 fp) / 10 ^ length fp
               in case read_exponent r2 of
                    None \<Rightarrow> Some (Num (sg * m), r2)
                  | Some (e, r3) \<Rightarrow> Some (Num (sg * m * pow10 e), r3))))"

text \<open>The global \<open>parseFloat\<close>.\<close>

definition parseFloat :: "string \<Rightarrow> number" where
  "parseFloat s =
     (case str_decimal_prefix (dropWhile is_space s) of
        None \<Rightarrow> NaN
      | Some (v, _) \<Rightarrow> v)"

text \<open>\<open>+str\<close>, the conversion of a whole string to a number: blank is zero, then the
  hexadecimal, octal and binary literals, then a decimal literal that fills the string.\<close>

definition toNumber :: "string \<Rightarrow> number" where
  "toNumber s =
     (let t = str_trim s in
      if t = [] then Num 0
      else if take 2 t \<in> {''0x'', ''0X''} \<and> drop 2 t \<noteq> [] \<and> list_all is_hex_digit (drop 2 t)
        then Num (of_int (radix_val 16 0 (drop 2 t)))
      else if take 2 t \<in> {''0o'', ''0O''} \<and> drop 2 t \<noteq> [] \<and> list_all (\<lambda>c. c \<in> set ''01234567'') (drop 2 t)
        then Num (of_int (radix_val 8 0 (drop 2 t)))
      else if take 2 t \<in> {''0b'', ''0B''} \<and> drop 2 t \<noteq> [] \<and> list_all (\<lambda>c. c \<in> set ''01'') (drop 2 t)
        then Num (of_int (radix_val 2 0 (drop 2 t)))
      else (case str_decimal_prefix t of
              Some (v, []) \<Rightarrow> v
            | _ \<Rightarrow> NaN))"

text \<open>\<open>parseInt(str, 10)\<close>.\<close>

definition parseInt10 :: "string \<Rightarrow> number" where
  "parseInt10 s =
     (let (sg, r) = read_sign (dropWhile is_space s); ds = takeWhile is_digit r
      in if ds = [] then NaN else Num (sg * of_int (digits_val 0 ds)))"

subsection \<open>Dates\<close>

text \<open>The number of days from 1 January 1970 to a day of the proleptic Gregorian
  calendar; the month counts from 1.\<close>

definition days_from_civil :: "int \<Rightarrow> int \<Rightarrow> int \<Rightarrow> int" where
  "days_from_civil y m d =
     (let y' = (if m \<le> 2 then y - 1 else y);
          era = y' div 400;
          yoe = y' - era * 400;
          doy = (153 * (m + (if m > 2 then - 3 else 9)) + 2) div 5 + d - 1;
          doe = yoe * 365 + yoe div 4 - yoe div 100 + doy
      in era * 146097 + doe - 719468)"

definition trunc :: "rat \<Rightarrow> int" where
  "trunc r = (if 0 \<le> r then \<lfloor>r\<rfloor> else \<lceil>r\<rceil>)"

text \<open>\<open>Date.UTC(year, month, date)\<close>: months count from 0 and overflow into the years,
  a year from 0 to 99 means 1900 plus that, and a time beyond the range of dates is
  \<open>NaN\<close>.\<close>

definition Date_UTC :: "number \<Rightarrow> number \<Rightarrow> number \<Rightarrow> number" where
  "Date_UTC year month date =
     (case (year, month, date) of
        (Num y, Num m, Num d) \<Rightarrow>
          (let yi = trunc y; mi = trunc m; di = trunc d;
               yr = (if 0 \<le> yi \<and> yi \<le> 99 then 1900 + yi else yi);
               ym = yr + mi div 12;
               mn = mi mod 12;
               tv = (days_from_civil ym (mn + 1) 1 + di - 1) * 86400000
           in if \<bar>tv\<bar> \<le> 8640000000000000 then Num (of_int tv) else NaN)
      | _ \<Rightarrow> NaN)"

text \<open>What \<open>Date.parse\<close> gives back: a number, or, where a library has replaced it, a
  date object, of which the code reads \<open>getTime()\<close> and \<open>getTimezoneOffset()\<close>.\<close>

datatype dateParseResult =
    ParsedNumber number
  | ParsedDate number number
  | ParsedOther

text \<open>
  The host the converter runs in: the year of the clock (\<open>new Date().getFullYear()\<close>),
  \<open>Date.parse\<close>, whose answer on strings outside the standard format is left to the
  engine, the offset of the local time zone in minutes at a time value, and the local day
  of the month of a time value (\<open>getDate()\<close>).
\<close>

record env =
  getFullYear :: number
  Date_parse :: "string \<Rightarrow> dateParseResult"
  getTimezoneOffset :: "number \<Rightarrow> number"
  getDate :: "number \<Rightarrow> number"

section \<open>The tabular model\<close>

text \<open>
  Modelled from the spec: \<open>DataTable.js\<close> and \<open>DataTableRow.js\<close> are not among the
  sources.  A cell value is one of string, number, boolean, date, nested table and the
  absent value; a row is an identifier and its cells by name, kept in the order of
  insertion; a table is the sequence of its rows and a presentation state that gives
  column names an index.
\<close>

datatype cellType =
    CUndefined
  | CNull
  | CBoolean bool
  | CNumber number
  | CString string
  | CDate number
  | CDataTable DataTable
and DataTableRow =
    DataTableRow (row_id: string) (cells: "(string \<times> cellType) list")
and DataTable =
    DataTable (rows: "DataTableRow list") (presentationState: "(string \<times> nat) list")

text \<open>Modelled from the spec: the row count of a table (\<open>getRowCount\<close>).\<close>

definition getRowCount :: "DataTable \<Rightarrow> nat" where
  "getRowCount table = length (rows table)"

section \<open>DataConverter\<close>

record Options =
  dateFormat :: string
  alternativeFormat :: string
  decimalPoint :: "string option"

record DateFormat =
  regex :: regex
  parser :: "env \<Rightarrow> string list option \<Rightarrow> number"
  alternative :: "string option"

record DataConverter =
  options :: Options
  parseDateFn :: "(string \<Rightarrow> number) option"
  decimalRegex :: "regex option"

definition defaultOptions :: Options where
  "defaultOptions = \<lparr>dateFormat = [], alternativeFormat = [], decimalPoint = None\<rparr>"

text \<open>\<open>+match[k]\<close>: the capture as a number; an index outside the match array reads
  \<open>undefined\<close>, which converts to \<open>NaN\<close>.\<close>

definition match_num :: "string list \<Rightarrow> nat \<Rightarrow> number" where
  "match_num m k = (if k < length m then toNumber (m ! k) else NaN)"

text \<open>The separator class \<open>[\-\/\.]\<close> and the five entries of \<open>this.dateFormats\<close>, in
  the order of the object literal, which is the order \<open>for (key in ...)\<close> visits them.\<close>

definition sep :: regex where
  "sep = OneOf ''-/.''"

definition format_YYYY_mm_dd :: DateFormat where
  "format_YYYY_mm_dd = \<lparr>
     regex = Seq [Bol, Group (Rep 4 (Some 4) Digit), sep, Group (Rep 1 (Some 2) Digit), sep,
                  Group (Rep 1 (Some 2) Digit), Eol],
     parser = (\<lambda>e match. case match of
                 None \<Rightarrow> NaN
               | Some m \<Rightarrow> Date_UTC (match_num m 1) (number_sub (match_num m 2) (Num 1))
                                    (match_num m 3)),
     alternative = None\<rparr>"

definition format_dd_mm_YYYY :: DateFormat where
  "format_dd_mm_YYYY = \<lparr>
     regex = Seq [Bol, Group (Rep 1 (Some 2) Digit), sep, Group (Rep 1 (Some 2) Digit), sep,
                  Group (Rep 4 (Some 4) Digit), Eol],
     parser = (\<lambda>e match. case match of
                 None \<Rightarrow> NaN
               | Some m \<Rightarrow> Date_UTC (match_num m 3) (number_sub (match_num m 2) (Num 1))
                                    (match_num m 1)),
     alternative = Some ''mm/dd/YYYY''\<rparr>"

definition format_mm_dd_YYYY :: DateFormat where
  "format_mm_dd_YYYY = \<lparr>
     regex = Seq [Bol, Group (Rep 1 (Some 2) Digit), sep, Group (Rep 1 (Some 2) Digit), sep,
                  Group (Rep 4 (Some 4) Digit), Eol],
     parser = (\<lambda>e match. case match of
                 None \<Rightarrow> NaN
               | Some m \<Rightarrow> Date_UTC (match_num m 3) (number_sub (match_num m 1) (Num 1))
                                    (match_num m 2)),
     alternative = None\<rparr>"

definition format_dd_mm_YY :: DateFormat where
  "format_dd_mm_YY = \<lparr>
     regex = Seq [Bol, Group (Rep 1 (Some 2) Digit), sep, Group (Rep 1 (Some 2) Digit), sep,
                  Group (Rep 2 (Some 2) Digit), Eol],
     parser = (\<lambda>e match. case match of
                 None \<Rightarrow> NaN
               | Some m \<Rightarrow>
                   (let year = match_num m 3;
                        year' = (if number_gt year (number_sub (getFullYear e) (Num 2000))
                                 then number_add year (Num 1900)
                                 else number_add year (Num 2000))
                    in Date_UTC year' (number_sub (match_num m 2) (Num 1)) (match_num m 1))),
     alternative = Some ''mm/dd/YY''\<rparr>"

definition format_mm_dd_YY :: DateFormat where
  "format_mm_dd_YY = \<lparr>
     regex = Seq [Bol, Group (Rep 1 (Some 2) Digit), sep, Group (Rep 1 (Some 2) Digit), sep,
                  Group (Rep 2 (Some 2) Digit), Eol],
     parser = (\<lambda>e match. case match of
                 None \<Rightarrow> NaN
               | Some m \<Rightarrow> Date_UTC (number_add (match_num m 3) (Num 2000))
                                    (number_sub (match_num m 1) (Num 1)) (match_num m 2)),
     alternative = None\<rparr>"

definition dateFormats :: "(string \<times> DateFormat) list" where
  "dateFormats =
     [(''YYYY/mm/dd'', format_YYYY_mm_dd),
      (''dd/mm/YYYY'', format_dd_mm_YYYY),
      (''mm/dd/YYYY'', format_mm_dd_YYYY),
      (''dd/mm/YY'', format_dd_mm_YY),
      (''mm/dd/YY'', format_mm_dd_YY)]"

text \<open>\<open>new RegExp('^(-?[0-9]+)' + decimalPoint + '([0-9]+)$')\<close> for the two decimal
  points the constructor lets through.  The text of the decimal point is pattern text:
  a comma stands for itself, a dot for any character.\<close>

definition decimalRegExp :: "string \<Rightarrow> regex" where
  "decimalRegExp dp =
     Seq [Bol, Group (Cat (Opt (Chr CHR ''-'')) (Plus Digit)),
          (if dp = ''.'' then Dot else Lit dp),
          Group (Plus Digit), Eol]"

text \<open>The constructor; its argument is the result of merging the options given over
  \<open>defaultOptions\<close>.\<close>

definition new_DataConverter :: "Options \<Rightarrow> (string \<Rightarrow> number) option \<Rightarrow> DataConverter" where
  "new_DataConverter opts parseDate =
     (let dp = (if decimalPoint opts \<noteq> Some ''.'' \<and> decimalPoint opts \<noteq> Some '',''
                then None else decimalPoint opts)
      in \<lparr>options = opts, parseDateFn = parseDate,
          decimalRegex = map_option decimalRegExp dp\<rparr>)"

definition getDateFormat :: "DataConverter \<Rightarrow> string" where
  "getDateFormat converter = dateFormat (options converter)"

definition trim :: "DataConverter \<Rightarrow> string \<Rightarrow> bool \<Rightarrow> string" where
  "trim converter str inside =
     (let str1 = str_replace_all str (Alt (Cat Bol (Plus Space)) (Cat (Plus Space) Eol)) [];
          str2 = (if inside \<and> regex_test (Seq [Bol, Plus (Alt Digit Space), Eol]) str1
                  then str_replace_all str1 Space [] else str1)
      in case decimalRegex converter of
           Some r \<Rightarrow> str_replace str2 r [TGroup 1, TLit ''.'', TGroup 2]
         | None \<Rightarrow> str2)"

definition asNumber :: "env \<Rightarrow> DataConverter \<Rightarrow> cellType \<Rightarrow> number" where
  "asNumber e converter v =
     (case v of
        CNumber n \<Rightarrow> n
      | CBoolean b \<Rightarrow> (if b then Num 1 else Num 0)
      | CString s \<Rightarrow>
          (let trimVal = trim converter s False; cast = parseFloat trimVal
           in if \<not> isNaN cast then cast else Num 0)
      | CDataTable t \<Rightarrow> Num (of_nat (getRowCount t))
      | CDate d \<Rightarrow> getDate e d
      | _ \<Rightarrow> Num 0)"

text \<open>The loop of the auto-detection: the first format whose pattern matches gives the
  result and the match; when none does, the result stays \<open>NaN\<close> and the match is the
  \<open>null\<close> of the last attempt.\<close>

fun detect :: "env \<Rightarrow> string \<Rightarrow> (string \<times> DateFormat) list \<Rightarrow> number \<times> string list option" where
  "detect e v [] = (NaN, None)"
| "detect e v ((key, format) # fs) =
     (case str_match v (regex format) of
        Some m \<Rightarrow> (parser format e (Some m), Some m)
      | None \<Rightarrow> detect e v fs)"

text \<open>The rewriting of time zone suffixes before \<open>Date.parse\<close>.\<close>

definition normalize_zone :: "string \<Rightarrow> string" where
  "normalize_zone v =
     (if str_match v (Seq [Chr CHR '':'', Plus Dot,
                           Group (Alt (Lit ''GMT'') (Alt (Lit ''UTC'') (OneOf ''Z+-'')))]) \<noteq> None
      then
        str_replace
          (str_replace
             (str_replace v
                (Seq [Star Space, Opt (Alt (Lit ''GMT'') (Lit ''UTC'')), Group (OneOf ''+-''),
                      Group (Cat Digit Digit), Group (Cat Digit Digit), Eol])
                [TGroup 1, TGroup 2, TLit '':'', TGroup 3])
             (Seq [Alt (Plus Space) (Alt (Lit ''GMT'') (Lit ''UTC'')), Group (OneOf ''+-'')])
             [TGroup 1])
          (Seq [Group Digit, Star Space, Alt (Lit ''GMT'') (Alt (Lit ''UTC'') (Chr CHR ''Z'')), Eol])
          [TGroup 1, TLit ''+00:00'']
      else v)"

text \<open>
  \<open>parseDate\<close> is a method of the instance: the model returns the number together with
  the instance as the call leaves it.  The method assigns to none of the instance's
  fields (the assignment to \<open>converter.options.dateFormat\<close> in the auto-detection is
  commented out; the format found is kept in the local variable \<open>dateFormat\<close> only).
\<close>

definition parseDate ::
  "env \<Rightarrow> DataConverter \<Rightarrow> string \<Rightarrow> string option \<Rightarrow> number \<times> DataConverter" where
  "parseDate e converter v dateFormatProp =
     (let dateFormat0 = (case dateFormatProp of
                           Some p \<Rightarrow> if p \<noteq> [] then p else dateFormat (options converter)
                         | None \<Rightarrow> dateFormat (options converter))
      in case parseDateFn converter of
           Some f \<Rightarrow> (f v, converter)
         | None \<Rightarrow>
             (let (result, match) =
                    (if dateFormat0 = [] then detect e v dateFormats
                     else
                       (let format = (case map_of dateFormats dateFormat0 of
                                        Some f \<Rightarrow> f
                                      | None \<Rightarrow> format_YYYY_mm_dd);
                            m = str_match v (regex format)
                        in (if m \<noteq> None then parser format e m else NaN, m)))
              in if match = None then
                   (case Date_parse e (normalize_zone v) of
                      ParsedDate t off \<Rightarrow>
                        (number_sub t (number_mul off (Num 60000)), converter)
                    | ParsedNumber n \<Rightarrow>
                        (if isNumber n
                         then number_sub n (number_mul (getTimezoneOffset e n) (Num 60000))
                         else result, converter)
                    | ParsedOther \<Rightarrow> (result, converter))
                 else (result, converter)))"

definition guessType :: "env \<Rightarrow> DataConverter \<Rightarrow> string \<Rightarrow> string" where
  "guessType e converter v =
     (let trimVal = trim converter v False;
          trimInsideVal = trim converter v True;
          floatVal = parseFloat trimInsideVal
      in if strict_eq (toNumber trimInsideVal) floatVal then
           (if number_gt floatVal (Num (365 * 24 * 3600 * 1000)) then ''Date'' else ''number'')
         else
           (let dateVal = (if trimVal \<noteq> [] then Some (fst (parseDate e converter v None))
                           else None)
            in case dateVal of
                 Some d \<Rightarrow> if number_truthy d \<and> isNumber d then ''Date'' else ''string''
               | None \<Rightarrow> ''string''))"

subsection \<open>deduceDateFormat\<close>

text \<open>An entry of the array \<open>stable\<close>: never written, \<open>false\<close>, or a number.  An entry
  of \<open>max\<close> is a number or never written.\<close>

datatype stableEntry = StUndefined | StFalse | StNum number

record deduceState =
  max_arr :: "number option list"
  stable :: "stableEntry list"
  guessedFormat :: "string list"
  madeDeduction :: bool

text \<open>The body of the loop over \<open>j\<close>, for the piece \<open>thing[j]\<close>.\<close>

definition deduce_elem :: "nat \<Rightarrow> string \<Rightarrow> deduceState \<Rightarrow> deduceState" where
  "deduce_elem j piece st =
     (if j < length (guessedFormat st) then
        (let elem = parseInt10 piece in
         if number_truthy elem then
           (let mx = js_set None (max_arr st) j
                       (case js_nth None (max_arr st) j of
                          None \<Rightarrow> Some elem
                        | Some m \<Rightarrow> if \<not> number_truthy m \<or> number_gt elem m then Some elem
                                    else Some m);
                sb = (case js_nth StUndefined (stable st) j of
                        StUndefined \<Rightarrow> js_set StUndefined (stable st) j (StNum elem)
                      | StFalse \<Rightarrow> js_set StUndefined (stable st) j StFalse
                      | StNum n \<Rightarrow> if \<not> strict_eq n elem
                                   then js_set StUndefined (stable st) j StFalse
                                   else stable st);
                st1 = st\<lparr>max_arr := mx, stable := sb\<rparr>
            in if number_gt elem (Num 31) then
                 (if number_gt (Num 100) elem
                  then st1\<lparr>guessedFormat := js_set [] (guessedFormat st1) j ''YY''\<rparr>
                  else st1\<lparr>guessedFormat := js_set [] (guessedFormat st1) j ''YYYY''\<rparr>)
               else if number_gt elem (Num 12) \<and> \<not> number_gt elem (Num 31) then
                 st1\<lparr>guessedFormat := js_set [] (guessedFormat st1) j ''dd'',
                     madeDeduction := True\<rparr>
               else if js_nth [] (guessedFormat st1) j = [] then
                 st1\<lparr>guessedFormat := js_set [] (guessedFormat st1) j ''mm''\<rparr>
               else st1)
         else st)
      else st)"

fun deduce_things :: "nat \<Rightarrow> string list \<Rightarrow> deduceState \<Rightarrow> deduceState" where
  "deduce_things j [] st = st"
| "deduce_things j (piece # pieces) st = deduce_things (Suc j) pieces (deduce_elem j piece st)"

text \<open>The body of the loop over \<open>i\<close>, for the sample \<open>data[i]\<close>.\<close>

definition deduce_item :: "string \<Rightarrow> deduceState \<Rightarrow> deduceState" where
  "deduce_item item st =
     (if item \<noteq> [] then
        (let thing = split_space
                       (str_replace_all
                          (str_replace_all
                             (str_replace_all (str_trim item) (Chr CHR ''/'') [TLit '' ''])
                             (Chr CHR ''-'') [TLit '' ''])
                          (Chr CHR ''.'') [TLit '' '']) []
         in deduce_things 0 thing (st\<lparr>guessedFormat := [[], [], []]\<rparr>))
      else st)"

fun deduce_items :: "string list \<Rightarrow> deduceState \<Rightarrow> deduceState" where
  "deduce_items [] st = st"
| "deduce_items (item # items) st = deduce_items items (deduce_item item st)"

text \<open>The repair pass over \<open>j < stable.length\<close>.\<close>

definition repair_elem :: "nat \<Rightarrow> deduceState \<Rightarrow> deduceState" where
  "repair_elem j st =
     (let over12 = (case js_nth None (max_arr st) j of
                      Some m \<Rightarrow> number_gt m (Num 12)
                    | None \<Rightarrow> False);
          g = js_nth [] (guessedFormat st) j
      in if js_nth StUndefined (stable st) j \<noteq> StFalse then
           (if over12 \<and> g \<noteq> ''YY'' \<and> g \<noteq> ''YYYY''
            then st\<lparr>guessedFormat := js_set [] (guessedFormat st) j ''YY''\<rparr>
            else st)
         else if over12 \<and> g = ''mm''
           then st\<lparr>guessedFormat := js_set [] (guessedFormat st) j ''dd''\<rparr>
         else st)"

fun repair :: "nat list \<Rightarrow> deduceState \<Rightarrow> deduceState" where
  "repair [] st = st"
| "repair (j # js) st = repair js (repair_elem j st)"

text \<open>
  \<open>deduceDateFormat(data, limit, save)\<close>: \<open>limit\<close> absent or zero means all samples.
  With \<open>save\<close>, the format is stored in the options of the instance, so the model
  returns the instance as well.
\<close>

definition deduceDateFormat ::
  "DataConverter \<Rightarrow> string list \<Rightarrow> nat option \<Rightarrow> bool \<Rightarrow> string \<times> DataConverter" where
  "deduceDateFormat converter data limit save =
     (let limit' = (case limit of
                      None \<Rightarrow> length data
                    | Some l \<Rightarrow> if l = 0 \<or> l > length data then length data else l);
          st0 = \<lparr>max_arr = [], stable = [], guessedFormat = [], madeDeduction = False\<rparr>;
          st1 = deduce_items (take limit' data) st0;
          format =
            (if madeDeduction st1 then
               (let st2 = repair [0..<length (stable st1)] st1;
                    g = guessedFormat st2;
                    g' = (if length g = 3 \<and> g ! 1 = ''dd'' \<and> g ! 2 = ''dd''
                          then g[2 := ''YY''] else g)
                in join ''/'' g')
             else ''YYYY/mm/dd'')
      in (format,
          if save then converter\<lparr>options := (options converter)\<lparr>dateFormat := format\<rparr>\<rparr>
          else converter))"

section \<open>Objects, generated keys and sorting\<close>

text \<open>\<open>Object.keys\<close>: the names that are array indices first, in ascending numeric
  order, then the other names in the order of their creation.\<close>

definition is_array_index :: "string \<Rightarrow> bool" where
  "is_array_index s =
     (s \<noteq> [] \<and> list_all is_digit s \<and> (s = ''0'' \<or> hd s \<noteq> CHR ''0'') \<and>
      digits_val 0 s < 4294967295)"

definition Object_keys :: "(string \<times> 'v) list \<Rightarrow> string list" where
  "Object_keys obj =
     sort_key (digits_val 0) (filter is_array_index (map fst obj)) @
     filter (\<lambda>k. \<not> is_array_index k) (map fst obj)"

text \<open>The decimal text of a natural number, as in the template string \<open>`${j}`\<close>.\<close>

fun string_of_nat :: "nat \<Rightarrow> string" where
  "string_of_nat n =
     (if n < 10 then [char_of (48 + n)]
      else string_of_nat (n div 10) @ [char_of (48 + n mod 10)])"

declare string_of_nat.simps [simp del]

text \<open>
  Modelled from the spec: \<open>U.uniqueKey\<close> of \<open>Core/Utilities.js\<close> is not among the
  sources.  Each call generates an identifier that no earlier call has generated: here a
  fixed prefix and the value of a counter, which is the state the calls share.
\<close>

text \<open>Modelled from the spec: the text of a generated key, a fixed prefix and the value of the counter.\<close>

definition key_of :: "nat \<Rightarrow> string" where
  "key_of n = ''highcharts-'' @ string_of_nat n"

text \<open>Modelled from the spec: \<open>U.uniqueKey\<close>; the call returns the key and the counter moved on.\<close>

definition uniqueKey :: "nat \<Rightarrow> string \<times> nat" where
  "uniqueKey k = (key_of k, Suc k)"

text \<open>\<open>array.sort(compare)\<close>: the sort is stable, and for a comparator that is
  consistent every stable sort returns the same array; the model inserts from the right.\<close>

fun insort_cmp :: "('a \<Rightarrow> 'a \<Rightarrow> int) \<Rightarrow> 'a \<Rightarrow> 'a list \<Rightarrow> 'a list" where
  "insort_cmp cmp x [] = [x]"
| "insort_cmp cmp x (y # ys) =
     (if cmp x y \<le> 0 then x # y # ys else y # insort_cmp cmp x ys)"

definition js_sort :: "('a \<Rightarrow> 'a \<Rightarrow> int) \<Rightarrow> 'a list \<Rightarrow> 'a list" where
  "js_sort cmp xs = foldr (insort_cmp cmp) xs []"

section \<open>Rows and tables\<close>

text \<open>
  Modelled from the spec: the operations of \<open>DataTableRow\<close> and \<open>DataTable\<close> that the
  parser and the store call.  A row is made from a record of cells; its identifier is the
  string given under \<open>id\<close>, or a generated one, and is not a cell.  \<open>insertCell\<close> adds a
  cell under a name the row does not have yet.  \<open>getCell\<close> of a name the row lacks is the
  absent value.  \<open>insertRow\<close> appends a row and refuses one whose identifier the table
  already has.  \<open>setColumnOrder\<close> assigns the names their positions as indices, and the
  column sorter compares names by index, a name without index after every name with one.
\<close>

text \<open>Modelled from the spec: the constructor of \<open>DataTableRow\<close>; the identifier is generated if not supplied.\<close>

definition new_DataTableRow :: "(string \<times> cellType) list \<Rightarrow> nat \<Rightarrow> DataTableRow \<times> nat" where
  "new_DataTableRow cs k =
     (case map_of cs ''id'' of
        Some (CString s) \<Rightarrow> (DataTableRow s (AList.delete ''id'' cs), k)
      | _ \<Rightarrow> (let (key, k') = uniqueKey k in (DataTableRow key (AList.delete ''id'' cs), k')))"

text \<open>Modelled from the spec: \<open>DataTableRow.insertCell\<close>; a cell is inserted under a name the row does not have.\<close>

definition insertCell :: "string \<Rightarrow> cellType \<Rightarrow> DataTableRow \<Rightarrow> DataTableRow" where
  "insertCell name v row =
     (if name \<in> fst ` set (cells row) then row
      else DataTableRow (row_id row) (cells row @ [(name, v)]))"

text \<open>Modelled from the spec: \<open>DataTableRow.getCellNames\<close>, the names of the cells of the row.\<close>

definition getCellNames :: "DataTableRow \<Rightarrow> string list" where
  "getCellNames row = map fst (cells row)"

text \<open>Modelled from the spec: \<open>DataTableRow.getCell\<close>; a cell the row lacks reads as the absent value.\<close>

definition getCell :: "DataTableRow \<Rightarrow> string \<Rightarrow> cellType" where
  "getCell row name = (case map_of (cells row) name of Some v \<Rightarrow> v | None \<Rightarrow> CUndefined)"

text \<open>Modelled from the spec: the constructor of \<open>DataTable\<close>, the table without rows.\<close>

definition new_DataTable :: DataTable where
  "new_DataTable = DataTable [] []"

text \<open>Modelled from the spec: \<open>DataTable.insertRow\<close>; identifiers are unique within a table, a row with a duplicate identifier is rejected.\<close>

definition insertRow :: "DataTableRow \<Rightarrow> DataTable \<Rightarrow> DataTable" where
  "insertRow row table =
     (if row_id row \<in> row_id ` set (rows table) then table
      else DataTable (rows table @ [row]) (presentationState table))"

text \<open>Modelled from the spec: \<open>DataTable.getAllRows\<close>, the rows in order.\<close>

definition getAllRows :: "DataTable \<Rightarrow> DataTableRow list" where
  "getAllRows table = rows table"

text \<open>Modelled from the spec: the loop of \<open>setColumnOrder\<close> of the presentation state, which assigns sequential indices.\<close>

fun assign_indices :: "nat \<Rightarrow> string list \<Rightarrow> (string \<times> nat) list \<Rightarrow> (string \<times> nat) list" where
  "assign_indices i [] ps = ps"
| "assign_indices i (name # names) ps = assign_indices (Suc i) names (AList.update name i ps)"

text \<open>Modelled from the spec: \<open>presentationState.setColumnOrder\<close>.\<close>

definition setColumnOrder :: "string list \<Rightarrow> DataTable \<Rightarrow> DataTable" where
  "setColumnOrder names table =
     DataTable (rows table) (assign_indices 0 names (presentationState table))"

text \<open>Modelled from the spec: \<open>presentationState.getColumnSorter\<close>, a comparator consistent with the assigned indices; columns without an index sort after columns with one.\<close>

definition getColumnSorter :: "DataTable \<Rightarrow> string \<Rightarrow> string \<Rightarrow> int" where
  "getColumnSorter table a b =
     (case (map_of (presentationState table) a, map_of (presentationState table) b) of
        (Some i, Some j) \<Rightarrow> (if i < j then - 1 else if j < i then 1 else 0)
      | (Some i, None) \<Rightarrow> - 1
      | (None, Some j) \<Rightarrow> 1
      | (None, None) \<Rightarrow> 0)"

section \<open>DataParser\<close>

subsection \<open>getColumnsFromTable\<close>

type_synonym ColumnCollection = "(string \<times> cellType list) list"

text \<open>
  \<open>columnsObject\<close> is the object literal \<open>{ id: [] }\<close>, so the test
  \<open>!columnsObject[cellName]\<close> also sees what the object inherits from
  \<open>Object.prototype\<close>.  The state of \<open>Object.prototype\<close> is part of the model: its
  members that are functions (\<open>toString\<close>, \<open>constructor\<close>, ...), each with the
  properties that have been written onto it, and the properties that have been added to
  \<open>Object.prototype\<close> itself.  The name \<open>__proto__\<close> reads as \<open>Object.prototype\<close>.
\<close>

record prototype =
  member_props :: "(string \<times> (string \<times> cellType) list) list"
  added_props :: "(string \<times> cellType) list"

text \<open>\<open>Object.prototype\<close> as a new realm has it.\<close>

definition fresh_prototype :: prototype where
  "fresh_prototype =
     \<lparr>member_props = map (\<lambda>name. (name, []))
        [''constructor'', ''hasOwnProperty'', ''isPrototypeOf'', ''propertyIsEnumerable'',
         ''toLocaleString'', ''toString'', ''valueOf'', ''__defineGetter__'',
         ''__defineSetter__'', ''__lookupGetter__'', ''__lookupSetter__''],
      added_props = []\<rparr>"

text \<open>What \<open>columnsObject[name]\<close> gives for a name that is not a property of
  \<open>columnsObject\<close> itself.\<close>

datatype inherited = InhAbsent | InhPrototype | InhMember string | InhValue cellType

definition inherited_of :: "prototype \<Rightarrow> string \<Rightarrow> inherited" where
  "inherited_of proto name =
     (if name = ''__proto__'' then InhPrototype
      else if name \<in> fst ` set (member_props proto) then InhMember name
      else case map_of (added_props proto) name of
             Some v \<Rightarrow> InhValue v
           | None \<Rightarrow> InhAbsent)"

text \<open>Truthiness of a cell value, and whether it is an object.\<close>

definition truthy :: "cellType \<Rightarrow> bool" where
  "truthy v =
     (case v of
        CUndefined \<Rightarrow> False
      | CNull \<Rightarrow> False
      | CBoolean b \<Rightarrow> b
      | CNumber n \<Rightarrow> number_truthy n
      | CString s \<Rightarrow> s \<noteq> []
      | CDate d \<Rightarrow> True
      | CDataTable t \<Rightarrow> True)"

definition is_object :: "cellType \<Rightarrow> bool" where
  "is_object v = (case v of CDate d \<Rightarrow> True | CDataTable t \<Rightarrow> True | _ \<Rightarrow> False)"

text \<open>The module is strict code: writing a property onto a primitive value throws.\<close>

datatype error = TypeError

text \<open>The loop \<open>for (rowNumber = 0; rowNumber < rowIndex; rowNumber++)\<close> that fills a new
  column with the absent value for the rows already scanned.\<close>

fun fill_previous :: "nat list \<Rightarrow> cellType list \<Rightarrow> cellType list" where
  "fill_previous [] arr = arr"
| "fill_previous (rowNumber # ns) arr = fill_previous ns (js_set CUndefined arr rowNumber CUndefined)"

text \<open>The new column of a cell name, made when \<open>!columnsObject[cellName]\<close> holds, with
  the cell written at \<open>rowIndex\<close>.\<close>

definition new_column :: "nat \<Rightarrow> cellType \<Rightarrow> cellType list" where
  "new_column rowIndex cell =
     js_set CUndefined (if rowIndex > 0 then fill_previous [0..<rowIndex] [] else [])
       rowIndex cell"

text \<open>
  The body of the loop over the cell names of a row; the state is \<open>columnsObject\<close> and
  \<open>Object.prototype\<close>.  When \<open>columnsObject\<close> has the column, the cell is written into
  it.  When it has not, what it inherits under the name decides: nothing or a falsy value,
  and the column is made; a function member or \<open>Object.prototype\<close> itself, and no column
  is made and \<open>columnsObject[cellName][rowIndex] = cell\<close> writes the cell onto that member
  or adds it to \<open>Object.prototype\<close>; a truthy value, and no column is made and the write
  goes to that value, which throws when the value is a primitive (when it is a date or a
  table, the property lands on that object, which the model of cell values does not
  carry).
\<close>

definition put_cell ::
  "nat \<Rightarrow> DataTableRow \<Rightarrow> string \<Rightarrow> ColumnCollection \<times> prototype \<Rightarrow>
     error + ColumnCollection \<times> prototype" where
  "put_cell rowIndex row cellName st =
     (let (columnsObject, proto) = st;
          cell = getCell row cellName
      in case map_of columnsObject cellName of
           Some arr \<Rightarrow>
             Inr (AList.update cellName (js_set CUndefined arr rowIndex cell) columnsObject, proto)
         | None \<Rightarrow>
             (case inherited_of proto cellName of
                InhAbsent \<Rightarrow>
                  Inr (AList.update cellName (new_column rowIndex cell) columnsObject, proto)
              | InhValue v \<Rightarrow>
                  (if \<not> truthy v
                   then Inr (AList.update cellName (new_column rowIndex cell) columnsObject, proto)
                   else if is_object v then Inr (columnsObject, proto)
                   else Inl TypeError)
              | InhMember m \<Rightarrow>
                  Inr (columnsObject,
                       proto\<lparr>member_props :=
                         AList.map_entry m (AList.update (string_of_nat rowIndex) cell)
                           (member_props proto)\<rparr>)
              | InhPrototype \<Rightarrow>
                  Inr (columnsObject,
                       proto\<lparr>added_props :=
                         AList.update (string_of_nat rowIndex) cell (added_props proto)\<rparr>)))"

fun put_cells ::
  "nat \<Rightarrow> DataTableRow \<Rightarrow> string list \<Rightarrow> ColumnCollection \<times> prototype \<Rightarrow>
     error + ColumnCollection \<times> prototype" where
  "put_cells rowIndex row [] st = Inr st"
| "put_cells rowIndex row (cellName # cellNames) st =
     (case put_cell rowIndex row cellName st of
        Inl e \<Rightarrow> Inl e
      | Inr st' \<Rightarrow> put_cells rowIndex row cellNames st')"

text \<open>\<open>while (column.length - 1 < rowIndex) column.push(void 0)\<close>; the subtraction is one
  of JavaScript numbers, so an empty column gives \<open>-1\<close>.\<close>

function pad_column :: "nat \<Rightarrow> cellType list \<Rightarrow> cellType list" where
  "pad_column rowIndex arr =
     (if int (length arr) - 1 < int rowIndex then pad_column rowIndex (arr @ [CUndefined])
      else arr)"
  by pat_completeness auto
termination
  by (relation "measure (\<lambda>(rowIndex, arr). Suc rowIndex - length arr)") auto

declare pad_column.simps [simp del]

text \<open>The loop over \<open>Object.keys(columnsObject)\<close> that pads the columns.\<close>

definition pad_columns :: "nat \<Rightarrow> ColumnCollection \<Rightarrow> ColumnCollection" where
  "pad_columns rowIndex columnsObject =
     foldl (\<lambda>obj columnName. AList.map_entry columnName (pad_column rowIndex) obj)
       columnsObject (Object_keys columnsObject)"

text \<open>The body of the loop over the rows.\<close>

definition scan_row ::
  "nat \<Rightarrow> DataTableRow \<Rightarrow> ColumnCollection \<times> prototype \<Rightarrow>
     error + ColumnCollection \<times> prototype" where
  "scan_row rowIndex row st =
     (let (columnsObject, proto) = st;
          obj1 = AList.map_entry ''id'' (\<lambda>arr. arr @ [CString (row_id row)]) columnsObject
      in case put_cells rowIndex row (getCellNames row) (obj1, proto) of
           Inl e \<Rightarrow> Inl e
         | Inr (obj2, proto2) \<Rightarrow> Inr (pad_columns rowIndex obj2, proto2))"

fun scan_rows ::
  "nat \<Rightarrow> DataTableRow list \<Rightarrow> ColumnCollection \<times> prototype \<Rightarrow>
     error + ColumnCollection \<times> prototype" where
  "scan_rows rowIndex [] st = Inr st"
| "scan_rows rowIndex (row # rs) st =
     (case scan_row rowIndex row st of
        Inl e \<Rightarrow> Inl e
      | Inr st' \<Rightarrow> scan_rows (Suc rowIndex) rs st')"

text \<open>\<open>columnsObject\<close> and \<open>Object.prototype\<close> after the loop over the rows.\<close>

definition columnsObject_of :: "prototype \<Rightarrow> DataTable \<Rightarrow> error + ColumnCollection \<times> prototype" where
  "columnsObject_of proto table = scan_rows 0 (getAllRows table) ([(''id'', [])], proto)"

text \<open>The names in the order the columns are returned in.\<close>

definition order_names_of :: "DataTable \<Rightarrow> bool \<Rightarrow> ColumnCollection \<Rightarrow> string list" where
  "order_names_of table usePresentationOrder columnsObject =
     (let columnNames = Object_keys columnsObject
      in if usePresentationOrder then js_sort (getColumnSorter table) columnNames
         else columnNames)"

text \<open>\<open>columnsObject[columnName]\<close> for a name that \<open>Object.keys\<close> has listed.\<close>

definition column_of :: "ColumnCollection \<Rightarrow> string \<Rightarrow> cellType list" where
  "column_of columnsObject columnName =
     (case map_of columnsObject columnName of Some arr \<Rightarrow> arr | None \<Rightarrow> [])"

text \<open>\<open>getColumnsFromTable\<close>: the error thrown, or the array of columns together with
  \<open>Object.prototype\<close> as the call leaves it.\<close>

definition getColumnsFromTable ::
  "prototype \<Rightarrow> DataTable \<Rightarrow> bool \<Rightarrow> error + cellType list list \<times> prototype" where
  "getColumnsFromTable proto table usePresentationOrder =
     (case columnsObject_of proto table of
        Inl e \<Rightarrow> Inl e
      | Inr (columnsObject, proto') \<Rightarrow>
          Inr (map (column_of columnsObject)
                 (order_names_of table usePresentationOrder columnsObject),
               proto'))"

text \<open>The names of the columns that a call returns, in the order of the columns (the
  function itself returns the arrays only); no names when the call throws.\<close>

definition columnNames_of :: "prototype \<Rightarrow> DataTable \<Rightarrow> bool \<Rightarrow> string list" where
  "columnNames_of proto table usePresentationOrder =
     (case columnsObject_of proto table of
        Inl e \<Rightarrow> []
      | Inr (columnsObject, proto') \<Rightarrow> order_names_of table usePresentationOrder columnsObject)"

subsection \<open>getSeriesOptionsFromTable and getTableFromSeriesOptions\<close>

text \<open>A point of a series: the positional array, the options object, or a bare value.\<close>

datatype point =
    PointArray "cellType list"
  | PointObject "(string \<times> cellType) list"
  | PointValue cellType

record SeriesOptions =
  data :: "point list option"
  type :: "string option"

fun point_fields :: "DataTableRow \<Rightarrow> string list \<Rightarrow> (string \<times> cellType) list \<Rightarrow> (string \<times> cellType) list" where
  "point_fields row [] pointOptions = pointOptions"
| "point_fields row (cellName # cellNames) pointOptions =
     point_fields row cellNames (AList.update cellName (getCell row cellName) pointOptions)"

definition getSeriesOptionsFromTable :: "DataTable \<Rightarrow> SeriesOptions" where
  "getSeriesOptionsFromTable table =
     \<lparr>data = Some (map (\<lambda>row. PointObject
                          (point_fields row (getCellNames row) [(''id'', CString (row_id row))]))
                      (getAllRows table)),
      type = None\<rparr>"

text \<open>The loop over the entries of a positional point: entry \<open>j\<close> goes under
  \<open>pointArrayMap[j]\<close>, or under the text of \<open>j\<close> where the map has no name or an empty
  one.\<close>

fun array_fields :: "string list \<Rightarrow> nat \<Rightarrow> cellType list \<Rightarrow> (string \<times> cellType) list \<Rightarrow> (string \<times> cellType) list" where
  "array_fields pointArrayMap j [] pointOptions = pointOptions"
| "array_fields pointArrayMap j (v # vs) pointOptions =
     array_fields pointArrayMap (Suc j) vs
       (AList.update
          (if js_nth [] pointArrayMap j \<noteq> [] then js_nth [] pointArrayMap j else string_of_nat j)
          v pointOptions)"

text \<open>The body of the loop over the points; the state is the table and the counter of
  the generated keys.\<close>

definition insert_point :: "string list \<Rightarrow> nat \<Rightarrow> point \<Rightarrow> DataTable \<times> nat \<Rightarrow> DataTable \<times> nat" where
  "insert_point pointArrayMap i p st =
     (let (table, k) = st;
          cs = (case p of
                  PointArray vs \<Rightarrow> array_fields pointArrayMap 0 vs []
                | PointObject pointOptions \<Rightarrow> pointOptions
                | PointValue v \<Rightarrow>
                    AList.update
                      (if js_nth [] pointArrayMap 1 \<noteq> [] then js_nth [] pointArrayMap 1 else ''y'')
                      v
                      [(if js_nth [] pointArrayMap 0 \<noteq> [] then js_nth [] pointArrayMap 0 else ''x'',
                        CNumber (Num (of_nat i)))]);
          (row, k') = new_DataTableRow cs k
      in (insertRow row table, k'))"

fun insert_points :: "string list \<Rightarrow> nat \<Rightarrow> point list \<Rightarrow> DataTable \<times> nat \<Rightarrow> DataTable \<times> nat" where
  "insert_points pointArrayMap i [] st = st"
| "insert_points pointArrayMap i (p # ps) st =
     insert_points pointArrayMap (Suc i) ps (insert_point pointArrayMap i p st)"

text \<open>
  \<open>getTableFromSeriesOptions\<close>; \<open>seriesTypes\<close> stands for
  \<open>SeriesRegistry.seriesTypes\<close>, which is not among the sources: it gives for the name
  of a series type the \<open>pointArrayMap\<close> of its prototype, when the type is registered and
  has one.  The last argument and the second result are the counter of generated keys.
\<close>

definition getTableFromSeriesOptions ::
  "(string \<Rightarrow> string list option) \<Rightarrow> SeriesOptions \<Rightarrow> string list \<Rightarrow> nat \<Rightarrow> DataTable \<times> nat" where
  "getTableFromSeriesOptions seriesTypes seriesOptions pointArrayMap k =
     (let points = (case data seriesOptions of Some ps \<Rightarrow> ps | None \<Rightarrow> []);
          pam1 = (if pointArrayMap = [] then
                    (let pam = (case type seriesOptions of
                                  Some t \<Rightarrow> (if t \<noteq> [] then
                                               (case seriesTypes t of Some m \<Rightarrow> m | None \<Rightarrow> [])
                                             else pointArrayMap)
                                | None \<Rightarrow> pointArrayMap)
                     in if pam = [] then [''x'', ''y''] else pam)
                  else pointArrayMap)
      in insert_points pam1 0 points (new_DataTable, k))"

subsection \<open>getTableFromColumns\<close>

text \<open>\<open>while (headers.length < columnsLength) headers.push(uniqueKey())\<close>.\<close>

function complete_headers :: "nat \<Rightarrow> string list \<Rightarrow> nat \<Rightarrow> string list \<times> nat" where
  "complete_headers columnsLength headers k =
     (if length headers < columnsLength
      then (let (key, k') = uniqueKey k in complete_headers columnsLength (headers @ [key]) k')
      else (headers, k))"
  by pat_completeness auto
termination
  by (relation "measure (\<lambda>(columnsLength, headers, k). columnsLength - length headers)")
     (auto simp: uniqueKey_def)

declare complete_headers.simps [simp del]

text \<open>The loop over \<open>j\<close> that fills the row for index \<open>i\<close>; a column that is too short
  reads as the absent value there.\<close>

fun fill_row :: "cellType list list \<Rightarrow> string list \<Rightarrow> nat \<Rightarrow> nat list \<Rightarrow> DataTableRow \<Rightarrow> DataTableRow" where
  "fill_row columns headers i [] row = row"
| "fill_row columns headers i (j # js) row =
     fill_row columns headers i js
       (insertCell (js_nth [] headers j) (js_nth CUndefined (js_nth [] columns j) i) row)"

text \<open>The loop over \<open>i < columns[0].length\<close>.\<close>

fun build_rows :: "cellType list list \<Rightarrow> string list \<Rightarrow> nat list \<Rightarrow> DataTable \<times> nat \<Rightarrow> DataTable \<times> nat" where
  "build_rows columns headers [] st = st"
| "build_rows columns headers (i # is) st =
     (let (table, k) = st;
          (row, k') = new_DataTableRow [] k
      in build_rows columns headers is
           (insertRow (fill_row columns headers i [0..<length columns] row) table, k'))"

text \<open>
  \<open>getTableFromColumns\<close>: the function has no branch that signals an error.  The results
  are the table, the array \<open>headers\<close> as the call leaves it (the generated names are
  pushed onto the caller's array), and the counter of generated keys.
\<close>

definition getTableFromColumns ::
  "cellType list list \<Rightarrow> string list \<Rightarrow> nat \<Rightarrow> DataTable \<times> string list \<times> nat" where
  "getTableFromColumns columns headers k =
     (let columnsLength = length columns;
          (headers', k1) = complete_headers columnsLength headers k;
          table = setColumnOrder headers' new_DataTable;
          (table', k2) =
            (if columnsLength \<noteq> 0
             then build_rows columns headers' [0..<length (columns ! 0)] (table, k1)
             else (table, k1))
      in (table', headers', k2))"

section \<open>DataStore\<close>

text \<open>
  Modelled from the spec: the record of metadata of a column (\<open>DataStore.MetaColumn\<close>, an
  optional \<open>index\<close> and descriptive fields, of which the title stands for all), the
  utilities \<open>U.merge\<close> and \<open>U.pick\<close> of \<open>Core/Utilities.js\<close> (the fields of the second
  record go over those of the first; the first argument that is defined), and
  \<open>DataTable.toColumns\<close> (the record of columns by name: the \<open>id\<close> column, then one
  column for each cell name met while scanning the rows, every column padded with the
  absent value to the number of rows), none of which is among the sources.
\<close>

text \<open>Modelled from the spec: the metadata of a column, \<open>{index?, other descriptive fields}\<close>.\<close>

record MetaColumn =
  index :: "nat option"
  title :: "string option"

text \<open>Modelled from the spec: \<open>U.merge\<close>, which merges (not replaces) the fields of metadata.\<close>

definition merge :: "MetaColumn \<Rightarrow> MetaColumn \<Rightarrow> MetaColumn" where
  "merge a b =
     \<lparr>index = (case index b of Some i \<Rightarrow> Some i | None \<Rightarrow> index a),
      title = (case title b of Some t \<Rightarrow> Some t | None \<Rightarrow> title a)\<rparr>"

text \<open>Modelled from the spec: \<open>U.pick\<close>, the first argument that is defined.\<close>

definition pick :: "'a option \<Rightarrow> 'a \<Rightarrow> 'a" where
  "pick a b = (case a of Some v \<Rightarrow> v | None \<Rightarrow> b)"

text \<open>Modelled from the spec: the scan of \<open>DataTable.toColumns\<close> for one cell of a row; the cell goes into the column of its name at the position of the row, a column met for the first time being made with the absent value for the rows before.\<close>

definition toColumns_cell :: "nat \<Rightarrow> DataTableRow \<Rightarrow> string \<Rightarrow> ColumnCollection \<Rightarrow> ColumnCollection" where
  "toColumns_cell rowIndex row cellName columnsRecord =
     (let cell = getCell row cellName
      in case map_of columnsRecord cellName of
           None \<Rightarrow> AList.update cellName (new_column rowIndex cell) columnsRecord
         | Some arr \<Rightarrow>
             AList.update cellName (js_set CUndefined arr rowIndex cell) columnsRecord)"

text \<open>Modelled from the spec: the scan of \<open>DataTable.toColumns\<close> for one row; the identifier goes into the \<open>id\<close> column, the cells into their columns, and every column the row has no cell for is padded with the absent value.\<close>

definition toColumns_row :: "nat \<Rightarrow> DataTableRow \<Rightarrow> ColumnCollection \<Rightarrow> ColumnCollection" where
  "toColumns_row rowIndex row columnsRecord =
     pad_columns rowIndex
       (foldl (\<lambda>obj cellName. toColumns_cell rowIndex row cellName obj)
          (AList.map_entry ''id'' (\<lambda>arr. arr @ [CString (row_id row)]) columnsRecord)
          (getCellNames row))"

text \<open>Modelled from the spec: the scan of \<open>DataTable.toColumns\<close> over the rows, in their order.\<close>

fun toColumns_rows :: "nat \<Rightarrow> DataTableRow list \<Rightarrow> ColumnCollection \<Rightarrow> ColumnCollection" where
  "toColumns_rows rowIndex [] columnsRecord = columnsRecord"
| "toColumns_rows rowIndex (row # rs) columnsRecord =
     toColumns_rows (Suc rowIndex) rs (toColumns_row rowIndex row columnsRecord)"

text \<open>Modelled from the spec: \<open>DataTable.toColumns\<close>, the record of the columns by name as described for the conversion of a table to columns: the \<open>id\<close> column first, then one column for each cell name in the order the scan of the rows meets them, every column padded with the absent value.\<close>

definition toColumns :: "DataTable \<Rightarrow> ColumnCollection" where
  "toColumns table = toColumns_rows 0 (getAllRows table) [(''id'', [])]"

record DataStore =
  table :: DataTable
  metadata :: "(string \<times> MetaColumn) list"

text \<open>The constructor with its default metadata \<open>{ columns: {} }\<close>.\<close>

definition new_DataStore :: "DataTable \<Rightarrow> DataStore" where
  "new_DataStore t = \<lparr>table = t, metadata = []\<rparr>"

definition describeColumn :: "string \<Rightarrow> MetaColumn \<Rightarrow> DataStore \<Rightarrow> DataStore" where
  "describeColumn name columnMeta store =
     store\<lparr>metadata :=
       AList.update name
         (merge (case map_of (metadata store) name of
                   Some m \<Rightarrow> m
                 | None \<Rightarrow> \<lparr>index = None, title = None\<rparr>)
                columnMeta)
         (metadata store)\<rparr>"

fun order_names :: "(string \<times> MetaColumn) list \<Rightarrow> nat \<Rightarrow> string list \<Rightarrow> string option list \<Rightarrow> string option list" where
  "order_names columns i [] columnOrder = columnOrder"
| "order_names columns i (columnName # columnNames) columnOrder =
     order_names columns (Suc i) columnNames
       (js_set None columnOrder
          (pick (case map_of columns columnName of Some m \<Rightarrow> index m | None \<Rightarrow> None) i)
          (Some columnName))"

text \<open>\<open>getColumnOrder\<close>: an array of names with \<open>None\<close> where no name was written.\<close>

definition getColumnOrder :: "DataStore \<Rightarrow> string option list" where
  "getColumnOrder store =
     order_names (metadata store) 0 (Object_keys (metadata store)) []"

fun set_order :: "nat \<Rightarrow> string list \<Rightarrow> DataStore \<Rightarrow> DataStore" where
  "set_order i [] store = store"
| "set_order i (name # names) store =
     set_order (Suc i) names (describeColumn name \<lparr>index = Some i, title = None\<rparr> store)"

definition store_setColumnOrder :: "string list \<Rightarrow> DataStore \<Rightarrow> DataStore" where
  "store_setColumnOrder columnNames store = set_order 0 columnNames store"

text \<open>\<open>array.indexOf(a)\<close>, counted from the second argument.\<close>

fun indexOf_from :: "int \<Rightarrow> 'a list \<Rightarrow> 'a \<Rightarrow> int" where
  "indexOf_from i [] a = - 1"
| "indexOf_from i (x # xs) a = (if x = a then i else indexOf_from (i + 1) xs a)"

definition export_compare :: "string option list \<Rightarrow> string \<Rightarrow> string \<Rightarrow> int" where
  "export_compare columnOrder a b =
     (if indexOf_from 0 columnOrder (Some a) < indexOf_from 0 columnOrder (Some b) then 1
      else if indexOf_from 0 columnOrder (Some a) > indexOf_from 0 columnOrder (Some b) then - 1
      else 0)"

text \<open>\<open>getColumnsForExport\<close>: the pair of \<open>columnNames\<close> and \<open>columnValues\<close>.\<close>

definition getColumnsForExport :: "DataStore \<Rightarrow> bool \<Rightarrow> string list \<times> cellType list list" where
  "getColumnsForExport store includeIdColumn =
     (let columnsRecord = toColumns (table store);
          columnNames = (if includeIdColumn then Object_keys columnsRecord
                         else drop 1 (Object_keys columnsRecord));
          columnOrder = rev (getColumnOrder store);
          columnNames' = (if columnOrder \<noteq> [] then js_sort (export_compare columnOrder) columnNames
                          else columnNames)
      in (columnNames', map (column_of columnsRecord) columnNames'))"

section \<open>Instances used in the properties\<close>

text \<open>A host for the evaluations on concrete inputs: the clock in the year 2020, the
  time zone UTC, and a \<open>Date.parse\<close> that recognises nothing.\<close>

definition sample_env :: env where
  "sample_env = \<lparr>getFullYear = Num 2020, Date_parse = (\<lambda>s. ParsedNumber NaN),
     getTimezoneOffset = (\<lambda>n. Num 0), getDate = (\<lambda>n. Num 1)\<rparr>"

text \<open>The same host after the clock has moved on to the year 2027.\<close>

definition later_env :: env where
  "later_env = sample_env\<lparr>getFullYear := Num 2027\<rparr>"

text \<open>The converter made with no options, and the one with the decimal comma.\<close>

definition plain_converter :: DataConverter where
  "plain_converter = new_DataConverter defaultOptions None"

definition comma_converter :: DataConverter where
  "comma_converter = new_DataConverter (defaultOptions\<lparr>decimalPoint := Some '',''\<rparr>) None"

text \<open>A sequence of \<open>parseDate\<close> calls on one instance, each with its own host, value and
  format argument: the instance after the last of them.\<close>

fun parseDate_calls :: "(env \<times> string \<times> string option) list \<Rightarrow> DataConverter \<Rightarrow> DataConverter" where
  "parseDate_calls [] converter = converter"
| "parseDate_calls ((e, v, dateFormatProp) # calls) converter =
     parseDate_calls calls (snd (parseDate e converter v dateFormatProp))"

text \<open>A table of one row whose cells were inserted in the order c, a, b.\<close>

definition export_table :: DataTable where
  "export_table =
     DataTable [DataTableRow ''r1'' [(''c'', CNumber (Num 1)), (''a'', CNumber (Num 2)),
                                    (''b'', CNumber (Num 3))]] []"

text \<open>The series with the one positional point \<open>[3, 7]\<close>.\<close>

definition series_3_7 :: SeriesOptions where
  "series_3_7 = \<lparr>data = Some [PointArray [CNumber (Num 3), CNumber (Num 7)]], type = None\<rparr>"

section \<open>Notions used in the properties of the parser\<close>

text \<open>What the column of a name holds at the position of a row: the cell of that name
  when the row has one; otherwise the identifier of the row in the \<open>id\<close> column, and the
  absent value in every other column.\<close>

definition cell_at :: "DataTableRow \<Rightarrow> string \<Rightarrow> cellType" where
  "cell_at row name =
     (if name \<in> set (getCellNames row) then getCell row name
      else if name = ''id'' then CString (row_id row)
      else CUndefined)"

definition column_at :: "DataTableRow list \<Rightarrow> string \<Rightarrow> cellType list" where
  "column_at rs name = map (\<lambda>row. cell_at row name) rs"



text \<open>What a column holds at the position of a row that has no cell of its name: the
  identifier of the row in the \<open>id\<close> column, the absent value in every other column.\<close>

definition absent_entry :: "DataTableRow \<Rightarrow> string \<Rightarrow> cellType" where
  "absent_entry row name = (if name = ''id'' then CString (row_id row) else CUndefined)"

text \<open>The invariant of the loop over the rows of \<open>getColumnsFromTable\<close>, for the rows
  scanned so far, and the one of the loop over the cell names of one row.\<close>

definition lengths_inv :: "DataTableRow list \<Rightarrow> ColumnCollection \<Rightarrow> bool" where
  "lengths_inv rs obj \<longleftrightarrow>
     ''id'' \<in> dom (map_of obj) \<and>
     (\<forall>n arr. map_of obj n = Some arr \<longrightarrow>
        length arr = length rs \<and>
        (\<forall>i < length rs. n \<notin> set (getCellNames (rs ! i)) \<longrightarrow> arr ! i = absent_entry (rs ! i) n))"

definition lengths_partial :: "DataTableRow list \<Rightarrow> DataTableRow \<Rightarrow> ColumnCollection \<Rightarrow> bool" where
  "lengths_partial rs row obj \<longleftrightarrow>
     ''id'' \<in> dom (map_of obj) \<and>
     (\<forall>n arr. map_of obj n = Some arr \<longrightarrow>
        (\<exists>base x. arr = base @ x \<and> length base = length rs \<and> length x \<le> 1 \<and>
           (\<forall>i < length rs. n \<notin> set (getCellNames (rs ! i)) \<longrightarrow> base ! i = absent_entry (rs ! i) n) \<and>
           (n \<notin> set (getCellNames row) \<longrightarrow>
              x = (if n = ''id'' then [CString (row_id row)] else []))))"

text \<open>A name for which the scan makes a column when \<open>columnsObject\<close> has none yet:
  one under which \<open>columnsObject\<close> inherits nothing, or a falsy value.  And the
  invariant on the names of the columns: distinct, \<open>id\<close> first, every other one such a
  name.\<close>

definition creates :: "prototype \<Rightarrow> string \<Rightarrow> bool" where
  "creates proto name =
     (case inherited_of proto name of
        InhAbsent \<Rightarrow> True
      | InhValue v \<Rightarrow> \<not> truthy v
      | InhMember m \<Rightarrow> False
      | InhPrototype \<Rightarrow> False)"


text \<open>Column arrays of unequal lengths.\<close>

definition short_second :: "cellType list list" where
  "short_second = [[CNumber (Num 1), CNumber (Num 2)], [CNumber (Num 3)]]"

definition long_second :: "cellType list list" where
  "long_second = [[CNumber (Num 1)], [CNumber (Num 3), CNumber (Num 4)]]"

text \<open>A table with a cell named like a function member of \<open>Object.prototype\<close>, and a
  table with a cell named \<open>__proto__\<close> that holds a date, after a cell named \<open>0\<close>.\<close>

definition member_table :: DataTable where
  "member_table =
     DataTable [DataTableRow ''r1'' [(''a'', CNumber (Num 1)), (''toString'', CNumber (Num 9))],
                DataTableRow ''r2'' [(''b'', CNumber (Num 2)), (''a'', CNumber (Num 3))]] []"


text \<open>What the conversion of \<open>member_table\<close> returns, and \<open>Object.prototype\<close> after it
  and after the conversion of \<open>proto_table\<close>, both started with \<open>Object.prototype\<close> as
  new.\<close>

definition member_columns :: "cellType list list" where
  "member_columns =
     [[CString ''r1'', CString ''r2''], [CNumber (Num 1), CNumber (Num 3)],
      [CUndefined, CNumber (Num 2)]]"

definition member_prototype :: prototype where
  "member_prototype =
     fresh_prototype\<lparr>member_props :=
       AList.update ''toString'' [(''0'', CNumber (Num 9))] (member_props fresh_prototype)\<rparr>"


section \<open>Properties of the converter\<close>

subsection \<open>parseDate and the instance\<close>

lemma parseDate_instance: "snd (parseDate e converter v dateFormatProp) = converter"
  by (simp add: parseDate_def Let_def split: option.split prod.split dateParseResult.split)

lemma parseDate_calls_instance: "parseDate_calls calls converter = converter"
  by (induction calls arbitrary: converter) (auto simp: parseDate_instance)

text \<open>
  C1, as stated, fails: the value \<open>2020/01/02\<close> matches the pattern of the registered
  format \<open>YYYY/mm/dd\<close>, and after the call the date format of the instance is not that
  name (it is still empty).
\<close>

theorem parseDate_remembers_counterexample:
  "str_match ''2020/01/02'' (regex format_YYYY_mm_dd) \<noteq> None \<and>
   getDateFormat (snd (parseDate sample_env (new_DataConverter defaultOptions None)
                         ''2020/01/02'' None)) \<noteq> ''YYYY/mm/dd''"
  by code_simp

text \<open>
  C1, amended: for a converter with no custom parse function and an empty date format, a
  call to \<open>parseDate\<close> leaves the instance as it was, the format found by the
  auto-detection serving that call only; so a later call without a format argument whose
  value matches a registered pattern detects the format again by going through the
  registry, and returns what the first matching format's parser computes.
\<close>

theorem parseDate_detects_again:
  assumes "parseDateFn converter = None" and "dateFormat (options converter) = []"
  shows "snd (parseDate e converter v dateFormatProp) = converter \<and>
     (\<forall>m. snd (detect e' v' dateFormats) = Some m \<longrightarrow>
        parseDate e' (snd (parseDate e converter v dateFormatProp)) v' None
          = (fst (detect e' v' dateFormats), converter))"
proof -
  have i: "snd (parseDate e converter v dateFormatProp) = converter"
    by (rule parseDate_instance)
  have "parseDate e' converter v' None = (fst (detect e' v' dateFormats), converter)"
    if "snd (detect e' v' dateFormats) = Some m" for m
    using assms that by (cases "detect e' v' dateFormats") (simp add: parseDate_def)
  with i show ?thesis by simp
qed

theorem parseDate_detects_again_witness:
  "parseDateFn plain_converter = None \<and> dateFormat (options plain_converter) = [] \<and>
   snd (detect sample_env ''01/02/2020'' dateFormats)
     = Some [''01/02/2020'', ''01'', ''02'', ''2020''] \<and>
   snd (parseDate sample_env plain_converter ''2020/01/02'' None) = plain_converter \<and>
   parseDate sample_env (snd (parseDate sample_env plain_converter ''2020/01/02'' None))
     ''01/02/2020'' None = (Num 1580515200000, plain_converter)"
proof -
  have a: "parseDateFn plain_converter = None"
    by (simp add: plain_converter_def new_DataConverter_def)
  have b: "dateFormat (options plain_converter) = []"
    by (simp add: plain_converter_def new_DataConverter_def defaultOptions_def)
  have d: "detect sample_env ''01/02/2020'' dateFormats
             = (Num 1580515200000, Some [''01/02/2020'', ''01'', ''02'', ''2020''])"
    by code_simp
  have d2: "snd (detect sample_env ''01/02/2020'' dateFormats)
              = Some [''01/02/2020'', ''01'', ''02'', ''2020'']"
    using d by simp
  note th = parseDate_detects_again [OF a b, of sample_env "''2020/01/02''" None
      sample_env "''01/02/2020''"]
  from th have i: "snd (parseDate sample_env plain_converter ''2020/01/02'' None) = plain_converter"
    by (rule conjunct1)
  from th d2 have r: "parseDate sample_env
      (snd (parseDate sample_env plain_converter ''2020/01/02'' None)) ''01/02/2020'' None
        = (fst (detect sample_env ''01/02/2020'' dateFormats), plain_converter)"
    by blast
  have r': "parseDate sample_env
      (snd (parseDate sample_env plain_converter ''2020/01/02'' None)) ''01/02/2020'' None
        = (Num 1580515200000, plain_converter)"
    unfolding r d by simp
  from a b d2 i r' show ?thesis by blast
qed

text \<open>
  C10, as stated, fails: \<open>parseDate\<close> reads the clock of the host (the parser of the
  format \<open>dd/mm/YY\<close> takes the century from the current year) and its time zone.  For the
  converter made with no options, the string \<open>01/01/27\<close> gives the first of January 1927
  on a host whose clock is in 2020, and the first of January 2027 on the same host with
  the clock in 2027, no call made in between.
\<close>

theorem parseDate_clock_counterexample:
  "parseDateFn plain_converter = None \<and> dateFormat (options plain_converter) = [] \<and>
   fst (parseDate sample_env plain_converter ''01/01/27'' None) = Num (- 1356998400000) \<and>
   fst (parseDate later_env (parseDate_calls [] plain_converter) ''01/01/27'' None)
     = Num 1798761600000"
  by code_simp

text \<open>
  C10, amended: for a converter with no custom parse function and no configured date
  format, and on one host (the same clock, time zone and \<open>Date.parse\<close> for the calls
  compared), the result of \<open>parseDate\<close> on a string is the same whatever \<open>parseDate\<close>
  calls were made on the instance before, with whatever values, format arguments and
  hosts: those calls leave the options of the instance unchanged, and the result is what
  the converter made with no options returns for the string on that host.
\<close>

theorem parseDate_deterministic:
  assumes "parseDateFn converter = None" and "dateFormat (options converter) = []"
  shows "fst (parseDate e (parseDate_calls calls converter) v None)
           = fst (parseDate e converter v None) \<and>
         fst (parseDate e converter v None) = fst (parseDate e plain_converter v None) \<and>
         options (parseDate_calls calls converter) = options converter"
proof -
  have "parseDateFn plain_converter = None" and "dateFormat (options plain_converter) = []"
    by (simp_all add: plain_converter_def new_DataConverter_def defaultOptions_def)
  with assms have "fst (parseDate e converter v None) = fst (parseDate e plain_converter v None)"
    by (simp add: parseDate_def Let_def split: prod.split dateParseResult.split)
  then show ?thesis by (simp add: parseDate_calls_instance)
qed

theorem parseDate_deterministic_witness:
  "parseDateFn comma_converter = None \<and> dateFormat (options comma_converter) = [] \<and>
   fst (parseDate sample_env
          (parseDate_calls [(later_env, ''01/01/27'', None),
                            (sample_env, ''31/12/99'', Some ''dd/mm/YY'')] comma_converter)
          ''01/02/2020'' None)
     = fst (parseDate sample_env comma_converter ''01/02/2020'' None) \<and>
   fst (parseDate sample_env comma_converter ''01/02/2020'' None)
     = fst (parseDate sample_env plain_converter ''01/02/2020'' None)"
proof -
  have a: "parseDateFn comma_converter = None"
    by (simp add: comma_converter_def new_DataConverter_def)
  have b: "dateFormat (options comma_converter) = []"
    by (simp add: comma_converter_def new_DataConverter_def defaultOptions_def)
  from parseDate_deterministic [OF a b] show ?thesis using a b by blast
qed

subsection \<open>asNumber\<close>

text \<open>
  C2, as stated, fails: with the decimal point \<open>,\<close> the string \<open>1 234,5\<close> does not
  convert to 1234.5.
\<close>

theorem asNumber_spaced_counterexample:
  "asNumber sample_env comma_converter (CString ''1 234,5'') \<noteq> Num (2469 / 2)"
  by code_simp

text \<open>
  C2, amended: for a converter configured with the decimal point \<open>,\<close>, \<open>asNumber\<close> of
  \<open>1 234,5\<close> is 1: \<open>asNumber\<close> trims the ends only, the pattern of the decimal comma
  needs the whole string to be digits, comma, digits, and \<open>parseFloat\<close> reads up to the
  space.  Without the space inside, \<open>asNumber\<close> of \<open>1234,5\<close> is 1234.5.
\<close>

theorem asNumber_spaced_decimal:
  "asNumber e comma_converter (CString ''1 234,5'') = Num 1 \<and>
   asNumber e comma_converter (CString ''1234,5'') = Num (2469 / 2)"
  by code_simp

subsection \<open>deduceDateFormat\<close>

text \<open>
  C7: the samples \<open>31/12/2020\<close>, \<open>01/01/2021\<close> give \<open>dd/mm/YYYY\<close>, and the samples
  \<open>12/31/2020\<close>, \<open>01/01/2021\<close> give \<open>mm/dd/YYYY\<close>, for every converter, without a limit,
  saving or not.
\<close>

theorem deduceDateFormat_examples:
  "fst (deduceDateFormat converter [''31/12/2020'', ''01/01/2021''] None save) = ''dd/mm/YYYY'' \<and>
   fst (deduceDateFormat converter [''12/31/2020'', ''01/01/2021''] None save) = ''mm/dd/YYYY''"
  by code_simp

subsection \<open>guessType\<close>














text \<open>With the decimal point \<open>.\<close> the pattern built by the constructor has the dot as the
  wildcard: \<open>1577836800000\<close> is rewritten to \<open>15778368000.0\<close> and guessed a number.\<close>

lemma guessType_decimal_dot:
  "guessType sample_env (new_DataConverter (defaultOptions\<lparr>decimalPoint := Some ''.''\<rparr>) None)
     ''1577836800000'' = ''number''"
  by code_simp

section \<open>Properties of the parser\<close>

subsection \<open>The series round trip\<close>

text \<open>
  C4, as stated, fails: the table made from the positional point \<open>[3, 7]\<close> with the map
  \<open>['x', 'y']\<close> does not convert back to the positional point.
\<close>

theorem series_round_trip_counterexample:
  "data (getSeriesOptionsFromTable
           (fst (getTableFromSeriesOptions (\<lambda>t. None) series_3_7 [''x'', ''y''] 0)))
     \<noteq> Some [PointArray [CNumber (Num 3), CNumber (Num 7)]]"
  by code_simp

text \<open>
  C4, amended: the positional point \<open>[3, 7]\<close> with the point-array-map \<open>['x', 'y']\<close>
  becomes one row with a generated identifier and the cells x = 3, y = 7; converting that
  table back gives one point in object form, with the fields \<open>id\<close> (the generated
  identifier), x = 3 and y = 7, and not the positional array.
\<close>

theorem series_round_trip:
  "getTableFromSeriesOptions seriesTypes series_3_7 [''x'', ''y''] k
     = (DataTable [DataTableRow (key_of k) [(''x'', CNumber (Num 3)), (''y'', CNumber (Num 7))]] [],
        Suc k) \<and>
   getSeriesOptionsFromTable
       (fst (getTableFromSeriesOptions seriesTypes series_3_7 [''x'', ''y''] k))
     = \<lparr>data = Some [PointObject [(''id'', CString (key_of k)), (''x'', CNumber (Num 3)),
                                  (''y'', CNumber (Num 7))]],
        type = None\<rparr>"
  by (simp add: getTableFromSeriesOptions_def series_3_7_def insert_point_def js_nth_def
      new_DataTableRow_def uniqueKey_def insertRow_def new_DataTable_def
      getSeriesOptionsFromTable_def getAllRows_def getCellNames_def getCell_def)

section \<open>Properties of the store\<close>

lemma order_abc:
  "getColumnOrder (store_setColumnOrder [''a'', ''b'', ''c''] (new_DataStore t))
     = [Some ''a'', Some ''b'', Some ''c'']"
  by code_simp

lemma sort_cab:
  "js_sort (export_compare [Some ''c'', Some ''b'', Some ''a'']) [''c'', ''a'', ''b'']
     = [''a'', ''b'', ''c'']"
  by code_simp

text \<open>
  C9: for a new store on a table whose columns are, after \<open>id\<close>, c, a, b in this order,
  after \<open>setColumnOrder(['a', 'b', 'c'])\<close> the export without the id column has the names
  a, b, c in this order, and the values are the columns of these names in the same order.
\<close>

theorem getColumnsForExport_order:
  assumes "Object_keys (toColumns t) = [''id'', ''c'', ''a'', ''b'']"
  shows "getColumnsForExport (store_setColumnOrder [''a'', ''b'', ''c''] (new_DataStore t)) False
           = ([''a'', ''b'', ''c''], map (column_of (toColumns t)) [''a'', ''b'', ''c''])"
proof -
  have t: "table (store_setColumnOrder [''a'', ''b'', ''c''] (new_DataStore t)) = t"
    by (simp add: store_setColumnOrder_def new_DataStore_def describeColumn_def)
  show ?thesis
    unfolding getColumnsForExport_def Let_def t order_abc assms
    by (simp add: sort_cab)
qed

theorem getColumnsForExport_order_witness:
  "Object_keys (toColumns export_table) = [''id'', ''c'', ''a'', ''b''] \<and>
   getColumnsForExport (store_setColumnOrder [''a'', ''b'', ''c''] (new_DataStore export_table))
       False
     = ([''a'', ''b'', ''c''], [[CNumber (Num 2)], [CNumber (Num 3)], [CNumber (Num 1)]])"
proof -
  have k: "Object_keys (toColumns export_table) = [''id'', ''c'', ''a'', ''b'']"
    by code_simp
  have c: "map (column_of (toColumns export_table)) [''a'', ''b'', ''c'']
             = [[CNumber (Num 2)], [CNumber (Num 3)], [CNumber (Num 1)]]"
    by code_simp
  show ?thesis using getColumnsForExport_order [OF k] k c by simp
qed

section \<open>Properties of the conversions between tables and columns\<close>

subsection \<open>The loops of the conversions\<close>

lemma fill_previous_replicate:
  "fill_previous [length arr..<length arr + d] arr = arr @ replicate d CUndefined"
proof (induction d arbitrary: arr)
  case 0
  then show ?case by simp
next
  case (Suc d)
  have "[length arr..<length arr + Suc d] = length arr # [Suc (length arr)..<Suc (length arr) + d]"
    by (simp add: upt_conv_Cons)
  moreover have "fill_previous [Suc (length arr)..<Suc (length arr) + d] (arr @ [CUndefined])
      = (arr @ [CUndefined]) @ replicate d CUndefined"
    using Suc.IH [of "arr @ [CUndefined]"] by simp
  ultimately show ?case by (simp add: js_set_def replicate_app_Cons_same)
qed

lemma fill_previous_new: "fill_previous [0..<k] [] = replicate k CUndefined"
  using fill_previous_replicate [of "[]" k] by simp

lemma pad_column_closed:
  "pad_column k arr = arr @ replicate (Suc k - length arr) CUndefined"
proof (induction k arr rule: pad_column.induct)
  case (1 rowIndex arr)
  show ?case
  proof (cases "int (length arr) - 1 < int rowIndex")
    case True
    then have "Suc rowIndex - length arr = Suc (rowIndex - length arr)" by linarith
    with True 1 show ?thesis
      by (subst pad_column.simps) (simp add: replicate_app_Cons_same)
  next
    case False
    then show ?thesis by (subst pad_column.simps) simp
  qed
qed

lemma new_column_closed: "new_column k cell = replicate k CUndefined @ [cell]"
  by (simp add: new_column_def fill_previous_new js_set_def)

lemma map_of_toColumns_cell:
  "map_of (toColumns_cell k row n obj) =
     (map_of obj)(n \<mapsto> js_set CUndefined
        (case map_of obj n of None \<Rightarrow> replicate k CUndefined | Some arr \<Rightarrow> arr) k (getCell row n))"
  by (cases "map_of obj n")
     (simp_all add: toColumns_cell_def Let_def AList.update_conv' new_column_closed js_set_def)


lemma set_Object_keys: "set (Object_keys obj) = fst ` set obj"
  by (auto simp: Object_keys_def)

lemma set_insort_cmp: "set (insort_cmp cmp x xs) = insert x (set xs)"
  by (induction xs) auto

lemma set_js_sort: "set (js_sort cmp xs) = set xs"
  unfolding js_sort_def by (induction xs) (simp_all add: set_insort_cmp)

lemma map_of_fold_map_entry:
  assumes "\<And>x. f (f x) = f x"
  shows "map_of (foldl (\<lambda>obj c. AList.map_entry c f obj) obj ns) n =
           (if n \<in> set ns then map_option f (map_of obj n) else map_of obj n)"
proof (induction ns arbitrary: obj)
  case Nil
  then show ?case by simp
next
  case (Cons c ns)
  show ?case
    by (cases "map_of obj n") (auto simp: Cons.IH AList.map_of_map_entry assms)
qed

lemma keys_map_entry: "map fst (AList.map_entry k f xs) = map fst xs"
  by (induction xs) auto



lemma pad_column_idem: "pad_column k (pad_column k arr) = pad_column k arr"
  by (simp add: pad_column_closed)

lemma map_of_pad_columns:
  "map_of (pad_columns k obj) n = map_option (pad_column k) (map_of obj n)"
proof (cases "map_of obj n")
  case None
  then show ?thesis
    by (simp add: pad_columns_def map_of_fold_map_entry [OF pad_column_idem])
next
  case (Some arr)
  then have "n \<in> set (Object_keys obj)"
    unfolding set_Object_keys by (metis domI dom_map_of_conv_image_fst)
  then show ?thesis
    by (simp add: pad_columns_def map_of_fold_map_entry [OF pad_column_idem])
qed


lemma dom_pad_columns: "dom (map_of (pad_columns k obj)) = dom (map_of obj)"
  by (auto simp: map_of_pad_columns dom_def)

subsection \<open>The scan of the rows without inherited names\<close>

lemma length_column_at [simp]: "length (column_at rs n) = length rs"
  by (simp add: column_at_def)

lemma js_set_end: "length xs = k \<Longrightarrow> js_set u xs k v = xs @ [v]"
  by (simp add: js_set_def)

lemma js_set_last: "length xs = k \<Longrightarrow> js_set u (xs @ [x]) k v = xs @ [v]"
  by (auto simp: js_set_def)










subsection \<open>Generated keys and the rows built from columns\<close>

lemma digits_val_snoc: "digits_val acc (xs @ [c]) = 10 * digits_val acc xs + digit_val c"
  by (induction xs arbitrary: acc) simp_all

lemma digit_val_char_of:
  assumes "d < 10"
  shows "digit_val (char_of (48 + d)) = int d"
proof -
  have "(of_char (char_of (48 + d)) :: int) = int (of_char (char_of (48 + d)))"
    by (simp only: of_nat_of_char)
  also have "\<dots> = int ((48 + d) mod 256)"
    by (simp only: of_char_of)
  also have "\<dots> = 48 + int d"
    using assms by simp
  finally show ?thesis by (simp add: digit_val_def)
qed

lemma digits_val_string_of_nat: "digits_val 0 (string_of_nat n) = int n"
proof (induction n rule: string_of_nat.induct)
  case (1 n)
  show ?case
  proof (cases "n < 10")
    case True
    then show ?thesis
      by (subst string_of_nat.simps) (simp add: digit_val_char_of)
  next
    case False
    have "digits_val 0 (string_of_nat n)
            = 10 * digits_val 0 (string_of_nat (n div 10)) + digit_val (char_of (48 + n mod 10))"
      using False by (subst string_of_nat.simps) (simp add: digits_val_snoc)
    also have "\<dots> = 10 * int (n div 10) + int (n mod 10)"
      using False 1 by (simp add: digit_val_char_of)
    also have "\<dots> = int n"
      by (simp add: zdiv_int zmod_int)
    finally show ?thesis .
  qed
qed

lemma key_of_inj: "key_of a = key_of b \<Longrightarrow> a = b"
proof -
  assume "key_of a = key_of b"
  then have "string_of_nat a = string_of_nat b" by (simp add: key_of_def)
  then have "digits_val 0 (string_of_nat a) = digits_val 0 (string_of_nat b)" by simp
  then show "a = b" by (simp add: digits_val_string_of_nat)
qed

lemma complete_headers_closed:
  "complete_headers n hs k =
     (hs @ map key_of [k..<k + (n - length hs)], k + (n - length hs))"
proof (induction n hs k rule: complete_headers.induct)
  case (1 columnsLength headers k)
  show ?case
  proof (cases "length headers < columnsLength")
    case True
    then have d: "columnsLength - length headers = Suc (columnsLength - Suc (length headers))"
      by simp
    have "complete_headers columnsLength headers k
            = complete_headers columnsLength (headers @ [key_of k]) (Suc k)"
      using True by (subst complete_headers.simps) (simp add: uniqueKey_def)
    also have "\<dots> = ((headers @ [key_of k]) @ map key_of [Suc k..<Suc k + (columnsLength - Suc (length headers))],
                       Suc k + (columnsLength - Suc (length headers)))"
      using 1 [OF True, of "(key_of k, Suc k)" "key_of k" "Suc k"] by (simp add: uniqueKey_def)
    also have "\<dots> = (headers @ map key_of [k..<k + (columnsLength - length headers)],
                       k + (columnsLength - length headers))"
    proof -
      have "[k..<k + Suc (columnsLength - Suc (length headers))]
              = k # [Suc k..<Suc k + (columnsLength - Suc (length headers))]"
        by (subst upt_rec) simp
      then show ?thesis unfolding d by simp
    qed
    finally show ?thesis .
  next
    case False
    then show ?thesis by (subst complete_headers.simps) simp
  qed
qed

lemma fill_row_cells:
  assumes "distinct (map (js_nth [] headers) js)"
    and "set (map (js_nth [] headers) js) \<inter> fst ` set (cells row) = {}"
  shows "fill_row columns headers i js row =
           DataTableRow (row_id row)
             (cells row @ map (\<lambda>j. (js_nth [] headers j, js_nth CUndefined (js_nth [] columns j) i)) js)"
  using assms
proof (induction js arbitrary: row)
  case Nil
  then show ?case by simp
next
  case (Cons j js)
  let ?row = "insertCell (js_nth [] headers j) (js_nth CUndefined (js_nth [] columns j) i) row"
  have r: "?row = DataTableRow (row_id row)
             (cells row @ [(js_nth [] headers j, js_nth CUndefined (js_nth [] columns j) i)])"
    using Cons.prems by (auto simp: insertCell_def)
  have "fill_row columns headers i js ?row =
           DataTableRow (row_id ?row)
             (cells ?row @ map (\<lambda>j. (js_nth [] headers j, js_nth CUndefined (js_nth [] columns j) i)) js)"
  proof (rule Cons.IH)
    show "distinct (map (js_nth [] headers) js)" using Cons.prems by simp
    show "set (map (js_nth [] headers) js) \<inter> fst ` set (cells ?row) = {}"
      using Cons.prems unfolding r by auto
  qed
  then show ?case by (simp add: r)
qed

lemma build_rows_closed:
  assumes "row_id ` set (rows tbl) \<subseteq> key_of ` {..<k}"
    and "distinct (map (js_nth [] headers) [0..<length columns])"
  shows "build_rows columns headers is (tbl, k) =
           (DataTable
              (rows tbl @
               map (\<lambda>(d, i). DataTableRow (key_of d)
                      (map (\<lambda>j. (js_nth [] headers j, js_nth CUndefined (js_nth [] columns j) i))
                         [0..<length columns]))
                 (zip [k..<k + length is] is))
              (presentationState tbl),
            k + length is)"
  using assms(1)
proof (induction "is" arbitrary: tbl k)
  case Nil
  then show ?case by simp
next
  case (Cons i "is")
  let ?cells = "\<lambda>i. map (\<lambda>j. (js_nth [] headers j, js_nth CUndefined (js_nth [] columns j) i))
                         [0..<length columns]"
  let ?row = "DataTableRow (key_of k) (?cells i)"
  have f: "fill_row columns headers i [0..<length columns] (DataTableRow (key_of k) []) = ?row"
    using fill_row_cells [OF assms(2), of "DataTableRow (key_of k) []" columns i] by simp
  have fresh: "key_of k \<notin> row_id ` set (rows tbl)"
  proof
    assume "key_of k \<in> row_id ` set (rows tbl)"
    with Cons.prems obtain j where "j < k" and "key_of k = key_of j" by auto
    then show False using key_of_inj by blast
  qed
  let ?tbl = "DataTable (rows tbl @ [?row]) (presentationState tbl)"
  have ins: "insertRow ?row tbl = ?tbl"
    using fresh by (simp add: insertRow_def)
  have step: "build_rows columns headers (i # is) (tbl, k) = build_rows columns headers is (?tbl, Suc k)"
    by (simp add: new_DataTableRow_def uniqueKey_def f ins)
  have sub: "row_id ` set (rows ?tbl) \<subseteq> key_of ` {..<Suc k}"
    using Cons.prems by (auto simp: lessThan_Suc)
  have z: "zip [k..<k + length (i # is)] (i # is) = (k, i) # zip [Suc k..<Suc k + length is] is"
    by (subst upt_rec) simp
  show ?case
    unfolding step Cons.IH [OF sub] z by simp
qed

lemma zip_upt_shift: "zip [k..<k + n] [0..<n] = map (\<lambda>i. (k + i, i)) [0..<n]"
  by (rule nth_equalityI) simp_all

lemma getTableFromColumns_closed:
  assumes "columns \<noteq> []"
    and "distinct (take (length columns) (fst (complete_headers (length columns) headers k)))"
  shows "getTableFromColumns columns headers k =
           (let hs = fst (complete_headers (length columns) headers k);
                k1 = snd (complete_headers (length columns) headers k)
            in (DataTable
                  (map (\<lambda>i. DataTableRow (key_of (k1 + i))
                          (map (\<lambda>j. (hs ! j, js_nth CUndefined (columns ! j) i)) [0..<length columns]))
                     [0..<length (columns ! 0)])
                  (assign_indices 0 hs []),
                hs, k1 + length (columns ! 0)))"
proof -
  obtain hs k1 where c: "complete_headers (length columns) headers k = (hs, k1)"
    by (cases "complete_headers (length columns) headers k")
  have len: "length columns \<le> length hs"
    using c by (auto simp: complete_headers_closed)
  have nth: "js_nth [] hs j = hs ! j" if "j < length columns" for j
    using that len by (simp add: js_nth_def)
  have cn: "js_nth [] columns j = columns ! j" if "j < length columns" for j
    using that by (simp add: js_nth_def)
  have m: "map (js_nth [] hs) [0..<length columns] = take (length columns) hs"
    by (rule nth_equalityI) (use len in \<open>simp_all add: js_nth_def\<close>)
  have d: "distinct (map (js_nth [] hs) [0..<length columns])"
    using assms(2) unfolding c m by simp
  have cells: "map (\<lambda>j. (js_nth [] hs j, js_nth CUndefined (js_nth [] columns j) i)) [0..<length columns]
             = map (\<lambda>j. (hs ! j, js_nth CUndefined (columns ! j) i)) [0..<length columns]" for i
    by (rule map_cong) (simp_all add: nth cn)
  have b: "build_rows columns hs [0..<length (columns ! 0)] (DataTable [] (assign_indices 0 hs []), k1)
        = (DataTable
             (map (\<lambda>i. DataTableRow (key_of (k1 + i))
                     (map (\<lambda>j. (hs ! j, js_nth CUndefined (columns ! j) i)) [0..<length columns]))
                [0..<length (columns ! 0)])
             (assign_indices 0 hs []),
           k1 + length (columns ! 0))"
    using build_rows_closed [of "DataTable [] (assign_indices 0 hs [])" k1 hs columns
        "[0..<length (columns ! 0)]", OF _ d]
    by (simp add: zip_upt_shift cells comp_def)
  show ?thesis
    using assms(1) by (simp add: getTableFromColumns_def c setColumnOrder_def new_DataTable_def b)
qed

subsection \<open>The scan of the rows with \<open>Object.prototype\<close>\<close>

lemma inherited_of_members:
  assumes "map fst (member_props p') = map fst (member_props p)"
    and "added_props p' = added_props p"
  shows "inherited_of p' = inherited_of p"
proof -
  from assms(1) have "set (map fst (member_props p')) = set (map fst (member_props p))" by simp
  then have "fst ` set (member_props p') = fst ` set (member_props p)" by simp
  then show ?thesis using assms(2) by (auto simp: inherited_of_def fun_eq_iff)
qed

lemma put_cell_cases:
  assumes "put_cell k row n (obj, p) = Inr (obj', p')"
  shows "((map_of obj n \<noteq> None \<or> creates p n) \<and> obj' = toColumns_cell k row n obj \<and> p' = p) \<or>
         (map_of obj n = None \<and> obj' = obj \<and>
            (n \<noteq> ''__proto__'' \<longrightarrow> inherited_of p' = inherited_of p))"
proof (cases "map_of obj n")
  case (Some arr)
  with assms show ?thesis
    by (simp add: put_cell_def toColumns_cell_def)
next
  case None
  show ?thesis
  proof (cases "inherited_of p n")
    case InhAbsent
    with assms None show ?thesis
      by (simp add: put_cell_def toColumns_cell_def creates_def)
  next
    case InhPrototype
    then have "n = ''__proto__''"
      by (simp add: inherited_of_def split: if_splits option.splits)
    with assms None InhPrototype show ?thesis
      by (auto simp: put_cell_def)
  next
    case (InhMember m)
    have "inherited_of
            (p\<lparr>member_props := AList.map_entry m (AList.update (string_of_nat k) (getCell row n))
                                  (member_props p)\<rparr>) = inherited_of p"
      by (rule inherited_of_members) (simp_all add: keys_map_entry)
    with assms None InhMember show ?thesis
      by (auto simp: put_cell_def)
  next
    case (InhValue v)
    with assms None show ?thesis
      by (auto simp: put_cell_def toColumns_cell_def creates_def split: if_splits)
  qed
qed

lemma lengths_partial_cell:
  assumes "lengths_partial rs row obj" and "n \<in> set (getCellNames row)"
  shows "lengths_partial rs row (toColumns_cell (length rs) row n obj)"
proof -
  let ?k = "length rs"
  let ?v = "js_set CUndefined
        (case map_of obj n of None \<Rightarrow> replicate ?k CUndefined | Some arr \<Rightarrow> arr)
        ?k (getCell row n)"
  have id: "''id'' \<in> dom (map_of obj)"
    using assms(1) by (simp add: lengths_partial_def)
  have v: "\<exists>base. ?v = base @ [getCell row n] \<and> length base = ?k \<and>
             (\<forall>i < ?k. n \<notin> set (getCellNames (rs ! i)) \<longrightarrow> base ! i = absent_entry (rs ! i) n)"
  proof (cases "map_of obj n")
    case None
    with id have "n \<noteq> ''id''" by auto
    then have "\<forall>i < ?k. replicate ?k CUndefined ! i = absent_entry (rs ! i) n"
      by (simp add: absent_entry_def)
    with None show ?thesis
      by (intro exI [of _ "replicate ?k CUndefined"]) (simp add: js_set_end)
  next
    case (Some arr)
    with assms(1) obtain base x where b: "arr = base @ x" "length base = ?k" "length x \<le> 1"
      "\<forall>i < ?k. n \<notin> set (getCellNames (rs ! i)) \<longrightarrow> base ! i = absent_entry (rs ! i) n"
      unfolding lengths_partial_def by blast
    have "js_set CUndefined (base @ x) ?k (getCell row n) = base @ [getCell row n]"
    proof (cases x)
      case Nil
      with b(2) show ?thesis by (simp add: js_set_end)
    next
      case (Cons y ys)
      with b(3) have "x = [y]" by simp
      with b(2) show ?thesis by (simp add: js_set_last)
    qed
    with Some b show ?thesis by auto
  qed
  show ?thesis
    unfolding lengths_partial_def map_of_toColumns_cell
  proof (intro conjI allI impI)
    show "''id'' \<in> dom ((map_of obj)(n \<mapsto> ?v))" using id by auto
  next
    fix m arr
    assume a: "((map_of obj)(n \<mapsto> ?v)) m = Some arr"
    show "\<exists>base x. arr = base @ x \<and> length base = ?k \<and> length x \<le> 1 \<and>
            (\<forall>i < ?k. m \<notin> set (getCellNames (rs ! i)) \<longrightarrow> base ! i = absent_entry (rs ! i) m) \<and>
            (m \<notin> set (getCellNames row) \<longrightarrow>
               x = (if m = ''id'' then [CString (row_id row)] else []))"
    proof (cases "m = n")
      case True
      with a have "arr = ?v" by simp
      with v obtain base where "arr = base @ [getCell row n]" "length base = ?k"
        "\<forall>i < ?k. n \<notin> set (getCellNames (rs ! i)) \<longrightarrow> base ! i = absent_entry (rs ! i) n"
        by auto
      with True assms(2) show ?thesis
        by (intro exI [of _ base] exI [of _ "[getCell row n]"]) simp
    next
      case False
      with a have "map_of obj m = Some arr" by simp
      with assms(1) show ?thesis unfolding lengths_partial_def by blast
    qed
  qed
qed

lemma lengths_partial_put_cell:
  assumes "lengths_partial rs row obj" and "n \<in> set (getCellNames row)"
    and "put_cell (length rs) row n (obj, p) = Inr (obj', p')"
  shows "lengths_partial rs row obj'"
  using put_cell_cases [OF assms(3)] lengths_partial_cell [OF assms(1,2)] assms(1) by auto

lemma lengths_partial_put_cells:
  assumes "lengths_partial rs row obj" and "set ns \<subseteq> set (getCellNames row)"
    and "put_cells (length rs) row ns (obj, p) = Inr (obj', p')"
  shows "lengths_partial rs row obj'"
  using assms
proof (induction ns arbitrary: obj p)
  case Nil
  then show ?case by simp
next
  case (Cons n ns)
  from Cons.prems(3) obtain obj1 p1
    where s: "put_cell (length rs) row n (obj, p) = Inr (obj1, p1)"
      and r: "put_cells (length rs) row ns (obj1, p1) = Inr (obj', p')"
    by (auto split: sum.splits)
  have "lengths_partial rs row obj1"
    by (rule lengths_partial_put_cell [OF Cons.prems(1) _ s]) (use Cons.prems(2) in simp)
  then show ?case
    by (rule Cons.IH) (use Cons.prems(2) r in simp_all)
qed

lemma lengths_partial_start:
  assumes "lengths_inv rs obj"
  shows "lengths_partial rs row (AList.map_entry ''id'' (\<lambda>arr. arr @ [CString (row_id row)]) obj)"
  unfolding lengths_partial_def
proof (intro conjI allI impI)
  show "''id'' \<in> dom (map_of (AList.map_entry ''id'' (\<lambda>arr. arr @ [CString (row_id row)]) obj))"
    using assms by (simp add: lengths_inv_def dom_map_of_conv_image_fst AList.dom_map_entry)
next
  fix n arr
  assume a: "map_of (AList.map_entry ''id'' (\<lambda>arr. arr @ [CString (row_id row)]) obj) n = Some arr"
  then obtain old where o: "map_of obj n = Some old"
    and arr: "arr = old @ (if n = ''id'' then [CString (row_id row)] else [])"
    by (auto simp: AList.map_of_map_entry split: if_splits option.splits)
  from assms o have "length old = length rs"
    and "\<forall>i < length rs. n \<notin> set (getCellNames (rs ! i)) \<longrightarrow> old ! i = absent_entry (rs ! i) n"
    by (auto simp: lengths_inv_def)
  then show "\<exists>base x. arr = base @ x \<and> length base = length rs \<and> length x \<le> 1 \<and>
            (\<forall>i < length rs. n \<notin> set (getCellNames (rs ! i)) \<longrightarrow> base ! i = absent_entry (rs ! i) n) \<and>
            (n \<notin> set (getCellNames row) \<longrightarrow>
               x = (if n = ''id'' then [CString (row_id row)] else []))"
    unfolding arr
    by (intro exI [of _ old] exI [of _ "if n = ''id'' then [CString (row_id row)] else []"]) simp
qed

lemma lengths_partial_finish:
  assumes "lengths_partial rs row obj"
  shows "lengths_inv (rs @ [row]) (pad_columns (length rs) obj)"
  unfolding lengths_inv_def
proof (intro conjI allI impI)
  show "''id'' \<in> dom (map_of (pad_columns (length rs) obj))"
    using assms by (simp add: dom_pad_columns lengths_partial_def)
next
  fix n arr
  assume "map_of (pad_columns (length rs) obj) n = Some arr"
  then obtain old where o: "map_of obj n = Some old" and arr: "arr = pad_column (length rs) old"
    by (auto simp: map_of_pad_columns)
  from assms o obtain base x where b: "old = base @ x" "length base = length rs" "length x \<le> 1"
    "\<forall>i < length rs. n \<notin> set (getCellNames (rs ! i)) \<longrightarrow> base ! i = absent_entry (rs ! i) n"
    "n \<notin> set (getCellNames row) \<longrightarrow> x = (if n = ''id'' then [CString (row_id row)] else [])"
    unfolding lengths_partial_def by blast
  have p: "arr = base @ (if x = [] then [CUndefined] else x)"
    unfolding arr b(1) using b(2,3) by (cases x) (simp_all add: pad_column_closed)
  show "length arr = length (rs @ [row])"
    unfolding p using b(2,3) by (cases x) simp_all
  fix i
  assume i: "i < length (rs @ [row])" and n: "n \<notin> set (getCellNames ((rs @ [row]) ! i))"
  show "arr ! i = absent_entry ((rs @ [row]) ! i) n"
  proof (cases "i < length rs")
    case True
    with b(2,4) n show ?thesis
      unfolding p by (simp add: nth_append)
  next
    case False
    with i have e: "i = length rs" by simp
    with n have "n \<notin> set (getCellNames row)" by simp
    with b(5) have "x = (if n = ''id'' then [CString (row_id row)] else [])" by simp
    then show ?thesis
      unfolding p e using b(2) by (simp add: nth_append absent_entry_def)
  qed
qed

lemma lengths_scan_row:
  assumes "lengths_inv rs obj" and "scan_row (length rs) row (obj, p) = Inr (obj', p')"
  shows "lengths_inv (rs @ [row]) obj'"
proof -
  let ?obj1 = "AList.map_entry ''id'' (\<lambda>arr. arr @ [CString (row_id row)]) obj"
  from assms(2) obtain obj2 where c: "put_cells (length rs) row (getCellNames row) (?obj1, p) = Inr (obj2, p')"
    and o: "obj' = pad_columns (length rs) obj2"
    by (auto simp: scan_row_def split: sum.splits)
  have "lengths_partial rs row obj2"
    by (rule lengths_partial_put_cells [OF lengths_partial_start [OF assms(1)] _ c]) simp
  then show ?thesis unfolding o by (rule lengths_partial_finish)
qed

lemma lengths_scan_rows:
  assumes "lengths_inv ps obj" and "scan_rows (length ps) rs (obj, p) = Inr (obj', p')"
  shows "lengths_inv (ps @ rs) obj'"
  using assms
proof (induction rs arbitrary: ps obj p)
  case Nil
  then show ?case by simp
next
  case (Cons r rs)
  from Cons.prems(2) obtain obj1 p1
    where s: "scan_row (length ps) r (obj, p) = Inr (obj1, p1)"
      and t: "scan_rows (Suc (length ps)) rs (obj1, p1) = Inr (obj', p')"
    by (auto split: sum.splits)
  have "lengths_inv ((ps @ [r]) @ rs) obj'"
    by (rule Cons.IH [OF lengths_scan_row [OF Cons.prems(1) s]]) (use t in simp)
  then show ?case by simp
qed

lemma lengths_columnsObject:
  assumes "columnsObject_of p tbl = Inr (obj, p')"
  shows "lengths_inv (rows tbl) obj"
proof -
  have "lengths_inv [] [(''id'', [])]"
    by (simp add: lengths_inv_def)
  from lengths_scan_rows [OF this, of "rows tbl" p obj p'] assms
  show ?thesis by (simp add: columnsObject_of_def getAllRows_def)
qed

lemma set_order_names_of: "set (order_names_of tbl u obj) = fst ` set obj"
  by (simp add: order_names_of_def Let_def set_js_sort set_Object_keys)

lemma put_cell_clean:
  assumes "added_props p = []" and "n \<noteq> ''__proto__''"
  shows "\<exists>obj' p'. put_cell k row n (obj, p) = Inr (obj', p') \<and> added_props p' = []"
  using assms
  by (cases "map_of obj n")
     (auto simp: put_cell_def inherited_of_def split: inherited.splits if_splits)

lemma put_cells_clean:
  assumes "added_props p = []" and "''__proto__'' \<notin> set ns"
  shows "\<exists>obj' p'. put_cells k row ns (obj, p) = Inr (obj', p') \<and> added_props p' = []"
  using assms
proof (induction ns arbitrary: obj p)
  case Nil
  then show ?case by simp
next
  case (Cons n ns)
  from put_cell_clean [OF Cons.prems(1), of n k row obj] Cons.prems(2)
  obtain obj1 p1 where s: "put_cell k row n (obj, p) = Inr (obj1, p1)" and c: "added_props p1 = []"
    by auto
  from Cons.IH [OF c, of obj1] Cons.prems(2) s show ?case by simp
qed

lemma scan_row_clean:
  assumes "added_props p = []" and "''__proto__'' \<notin> set (getCellNames row)"
  shows "\<exists>obj' p'. scan_row k row (obj, p) = Inr (obj', p') \<and> added_props p' = []"
proof -
  from put_cells_clean [OF assms, of k row "AList.map_entry ''id'' (\<lambda>arr. arr @ [CString (row_id row)]) obj"]
  show ?thesis by (auto simp: scan_row_def)
qed

lemma scan_rows_clean:
  assumes "added_props p = []" and "\<forall>row \<in> set rs. ''__proto__'' \<notin> set (getCellNames row)"
  shows "\<exists>obj' p'. scan_rows k rs (obj, p) = Inr (obj', p') \<and> added_props p' = []"
  using assms
proof (induction rs arbitrary: k obj p)
  case Nil
  then show ?case by simp
next
  case (Cons r rs)
  from scan_row_clean [OF Cons.prems(1), of r k obj] Cons.prems(2)
  obtain obj1 p1 where s: "scan_row k r (obj, p) = Inr (obj1, p1)" and c: "added_props p1 = []"
    by auto
  from Cons.IH [OF c, of "Suc k" obj1] Cons.prems(2) s show ?case by simp
qed

lemma columnsObject_clean:
  assumes "added_props p = []" and "\<forall>row \<in> set (rows tbl). ''__proto__'' \<notin> set (getCellNames row)"
  shows "\<exists>obj p'. columnsObject_of p tbl = Inr (obj, p') \<and> added_props p' = []"
  using scan_rows_clean [OF assms(1), of "rows tbl" 0 "[(''id'', [])]"] assms(2)
  by (simp add: columnsObject_of_def getAllRows_def)














subsection \<open>The names of the columns and the rebuilt table\<close>












subsection \<open>Columns of a table\<close>

text \<open>
  C6: for every table, whatever cell names its rows have, for every state of
  \<open>Object.prototype\<close>, and with or without the presentation order: every column array
  that \<open>getColumnsFromTable\<close> returns has as many entries as the table has rows; the
  array at position \<open>j\<close> belongs to the \<open>j\<close>-th column name, and its entry for a row
  that has no cell of that name is the absent value (the identifier of the row in the
  \<open>id\<close> column).  The call returns whenever nothing has been added to
  \<open>Object.prototype\<close> and no cell is named \<open>__proto__\<close>.
\<close>

theorem getColumnsFromTable_padded:
  "(added_props p = [] \<and> (\<forall>row \<in> set (rows tbl). ''__proto__'' \<notin> set (getCellNames row)) \<longrightarrow>
      (\<exists>cols p'. getColumnsFromTable p tbl usePresentationOrder = Inr (cols, p'))) \<and>
   (\<forall>cols p'. getColumnsFromTable p tbl usePresentationOrder = Inr (cols, p') \<longrightarrow>
      (\<forall>col \<in> set cols. length col = getRowCount tbl) \<and>
      length cols = length (columnNames_of p tbl usePresentationOrder) \<and>
      (\<forall>j < length cols. \<forall>i < getRowCount tbl.
         columnNames_of p tbl usePresentationOrder ! j \<notin> set (getCellNames (rows tbl ! i)) \<longrightarrow>
         cols ! j ! i
           = absent_entry (rows tbl ! i) (columnNames_of p tbl usePresentationOrder ! j)))"
proof (intro conjI allI impI ballI)
  assume "added_props p = [] \<and> (\<forall>row \<in> set (rows tbl). ''__proto__'' \<notin> set (getCellNames row))"
  then obtain obj p' where "columnsObject_of p tbl = Inr (obj, p')"
    using columnsObject_clean [of p tbl] by blast
  then show "\<exists>cols p'. getColumnsFromTable p tbl usePresentationOrder = Inr (cols, p')"
    by (simp add: getColumnsFromTable_def)
next
  fix cols p'
  assume r: "getColumnsFromTable p tbl usePresentationOrder = Inr (cols, p')"
  then obtain obj where c: "columnsObject_of p tbl = Inr (obj, p')"
    and cols: "cols = map (column_of obj) (order_names_of tbl usePresentationOrder obj)"
    by (auto simp: getColumnsFromTable_def split: sum.splits)
  have names: "columnNames_of p tbl usePresentationOrder = order_names_of tbl usePresentationOrder obj"
    by (simp add: columnNames_of_def c)
  have li: "lengths_inv (rows tbl) obj" by (rule lengths_columnsObject [OF c])
  have col: "map_of obj n = Some (column_of obj n)"
    if "n \<in> set (order_names_of tbl usePresentationOrder obj)" for n
  proof -
    from that have "n \<in> fst ` set obj" by (simp add: set_order_names_of)
    then obtain arr where "map_of obj n = Some arr"
      by (cases "map_of obj n") (auto simp: map_of_eq_None_iff)
    then show ?thesis by (simp add: column_of_def)
  qed
  show "length col = getRowCount tbl" if "col \<in> set cols" for col
  proof -
    from that obtain n where "n \<in> set (order_names_of tbl usePresentationOrder obj)"
      and "col = column_of obj n" unfolding cols by auto
    with col [of n] li show ?thesis by (simp add: lengths_inv_def getRowCount_def)
  qed
  show "length cols = length (columnNames_of p tbl usePresentationOrder)"
    by (simp add: cols names)
  fix j i
  assume j: "j < length cols" and i: "i < getRowCount tbl"
    and a: "columnNames_of p tbl usePresentationOrder ! j \<notin> set (getCellNames (rows tbl ! i))"
  let ?n = "order_names_of tbl usePresentationOrder obj ! j"
  from j have "?n \<in> set (order_names_of tbl usePresentationOrder obj)" by (simp add: cols)
  then have "map_of obj ?n = Some (column_of obj ?n)" by (rule col)
  with li i a have "column_of obj ?n ! i = absent_entry (rows tbl ! i) ?n"
    by (simp add: lengths_inv_def getRowCount_def names)
  with j show "cols ! j ! i
           = absent_entry (rows tbl ! i) (columnNames_of p tbl usePresentationOrder ! j)"
    by (simp add: cols names)
qed

theorem getColumnsFromTable_padded_witness:
  "added_props fresh_prototype = [] \<and>
   list_all (\<lambda>row. ''__proto__'' \<notin> set (getCellNames row)) (rows member_table) \<and>
   getColumnsFromTable fresh_prototype member_table False = Inr (member_columns, member_prototype) \<and>
   [CUndefined, CNumber (Num 2)] \<in> set member_columns \<and>
   length [CUndefined, CNumber (Num 2)] = getRowCount member_table \<and>
   length member_columns = length (columnNames_of fresh_prototype member_table False) \<and>
   2 < length member_columns \<and> 0 < getRowCount member_table \<and>
   columnNames_of fresh_prototype member_table False ! 2
     \<notin> set (getCellNames (rows member_table ! 0)) \<and>
   member_columns ! 2 ! 0
     = absent_entry (rows member_table ! 0) (columnNames_of fresh_prototype member_table False ! 2)"
proof -
  have a: "added_props fresh_prototype = []"
    by (simp add: fresh_prototype_def)
  have c: "list_all (\<lambda>row. ''__proto__'' \<notin> set (getCellNames row)) (rows member_table)"
    by code_simp
  then have b: "\<forall>row \<in> set (rows member_table). ''__proto__'' \<notin> set (getCellNames row)"
    by (simp only: list_all_iff)
  have r: "getColumnsFromTable fresh_prototype member_table False
             = Inr (member_columns, member_prototype)"
    by code_simp
  have m: "[CUndefined, CNumber (Num 2)] \<in> set member_columns"
    by (simp add: member_columns_def)
  have j: "2 < length member_columns"
    by (simp add: member_columns_def)
  have i: "0 < getRowCount member_table"
    by code_simp
  have n: "columnNames_of fresh_prototype member_table False ! 2
             \<notin> set (getCellNames (rows member_table ! 0))"
    by code_simp
  note th = getColumnsFromTable_padded [of fresh_prototype member_table False]
  from th a b have "\<exists>cols p'. getColumnsFromTable fresh_prototype member_table False = Inr (cols, p')"
    by blast
  from th r have t: "(\<forall>col \<in> set member_columns. length col = getRowCount member_table) \<and>
      length member_columns = length (columnNames_of fresh_prototype member_table False) \<and>
      (\<forall>j < length member_columns. \<forall>i < getRowCount member_table.
         columnNames_of fresh_prototype member_table False ! j
           \<notin> set (getCellNames (rows member_table ! i)) \<longrightarrow>
         member_columns ! j ! i
           = absent_entry (rows member_table ! i)
               (columnNames_of fresh_prototype member_table False ! j))"
    by blast
  from t m have l: "length [CUndefined, CNumber (Num 2)] = getRowCount member_table"
    by blast
  from t have k: "length member_columns = length (columnNames_of fresh_prototype member_table False)"
    by blast
  from t j i n have e: "member_columns ! 2 ! 0
     = absent_entry (rows member_table ! 0) (columnNames_of fresh_prototype member_table False ! 2)"
    by blast
  from a c r m l k j i n e show ?thesis by blast
qed

subsection \<open>A table from columns\<close>

text \<open>
  C3, as stated, fails: for column arrays of unequal lengths \<open>getTableFromColumns\<close>
  signals nothing and returns a table.  With a second column shorter than the first, the
  second row gets a cell with the absent value that no column held; with a second column
  longer than the first, its last value is left out.
\<close>

theorem getTableFromColumns_unequal_counterexample:
  "getTableFromColumns short_second [''a'', ''b''] 0
     = (DataTable
          [DataTableRow ''highcharts-0'' [(''a'', CNumber (Num 1)), (''b'', CNumber (Num 3))],
           DataTableRow ''highcharts-1'' [(''a'', CNumber (Num 2)), (''b'', CUndefined)]]
          [(''a'', 0), (''b'', 1)],
        [''a'', ''b''], 2) \<and>
   getTableFromColumns long_second [''a'', ''b''] 0
     = (DataTable
          [DataTableRow ''highcharts-0'' [(''a'', CNumber (Num 1)), (''b'', CNumber (Num 3))]]
          [(''a'', 0), (''b'', 1)],
        [''a'', ''b''], 1)"
  by code_simp

text \<open>
  C3, amended: \<open>getTableFromColumns\<close> makes no check of the lengths and never signals an
  error.  For column arrays of any lengths, with one distinct header for each column, it
  returns a table with one row for each index of the first column, with generated
  identifiers; in the row of index \<open>i\<close> the cell of column \<open>j\<close> is \<open>columns[j][i]\<close>, which
  is the absent value where column \<open>j\<close> is too short; what a column holds beyond the
  length of the first column is left out.
\<close>

theorem getTableFromColumns_any_lengths:
  assumes "columns \<noteq> []" and "length headers = length columns" and "distinct headers"
  shows "getTableFromColumns columns headers k =
           (DataTable
              (map (\<lambda>i. DataTableRow (key_of (k + i))
                      (map (\<lambda>j. (headers ! j, js_nth CUndefined (columns ! j) i))
                         [0..<length columns]))
                 [0..<length (columns ! 0)])
              (assign_indices 0 headers []),
            headers, k + length (columns ! 0))"
proof -
  have c: "complete_headers (length columns) headers k = (headers, k)"
    using assms(2) by (simp add: complete_headers_closed)
  show ?thesis
    by (subst getTableFromColumns_closed) (use assms c in \<open>simp_all add: Let_def\<close>)
qed

theorem getTableFromColumns_any_lengths_witness:
  "short_second \<noteq> [] \<and> length [''a'', ''b''] = length short_second \<and> distinct [''a'', ''b''] \<and>
   length (short_second ! 0) \<noteq> length (short_second ! 1) \<and>
   rows (fst (getTableFromColumns short_second [''a'', ''b''] 0))
     = [DataTableRow ''highcharts-0'' [(''a'', CNumber (Num 1)), (''b'', CNumber (Num 3))],
        DataTableRow ''highcharts-1'' [(''a'', CNumber (Num 2)), (''b'', CUndefined)]]"
proof -
  have a: "short_second \<noteq> []" by (simp add: short_second_def)
  have b: "length [''a'', ''b''] = length short_second" by (simp add: short_second_def)
  have c: "distinct [''a'', ''b'']" by simp
  have d: "length (short_second ! 0) \<noteq> length (short_second ! 1)" by (simp add: short_second_def)
  have r: "map (\<lambda>i. DataTableRow (key_of (0 + i))
                  (map (\<lambda>j. ([''a'', ''b''] ! j, js_nth CUndefined (short_second ! j) i))
                     [0..<length short_second]))
             [0..<length (short_second ! 0)]
           = [DataTableRow ''highcharts-0'' [(''a'', CNumber (Num 1)), (''b'', CNumber (Num 3))],
              DataTableRow ''highcharts-1'' [(''a'', CNumber (Num 2)), (''b'', CUndefined)]]"
    by code_simp
  have "rows (fst (getTableFromColumns short_second [''a'', ''b''] 0))
     = [DataTableRow ''highcharts-0'' [(''a'', CNumber (Num 1)), (''b'', CNumber (Num 3))],
        DataTableRow ''highcharts-1'' [(''a'', CNumber (Num 2)), (''b'', CUndefined)]]"
    unfolding getTableFromColumns_any_lengths [OF a b c, of 0] using r by simp
  with a b c d show ?thesis by blast
qed

subsection \<open>The round trip through columns\<close>




end
